theory Spec2Isabelle
  imports Main
begin

section \<open>The request handlers of \<^verbatim>\<open>lama_cleaner/server.py\<close>\<close>

text \<open>
  The handlers of the Flask application are glue code: they read a request, call the
  image codec, the model manager or a plugin, and turn what comes back into a response.
  Each handler is embedded as a function from the process state (the global configuration,
  the log of calls to collaborators, the files on disk) and a request to an outcome and
  the state afterwards. Whatever lives in another module or library (\<^verbatim>\<open>load_img\<close>,
  \<^verbatim>\<open>resize_max_size\<close>, \<^verbatim>\<open>pil_to_bytes\<close>, the model manager, OpenCV, NumPy, PIL,
  \<^verbatim>\<open>imghdr\<close>, \<^verbatim>\<open>random\<close>, \<^verbatim>\<open>pathlib\<close>) is a field of the record \<open>env\<close>, so every
  theorem holds for any behaviour of these collaborators.

  The source has no \<^verbatim>\<open>raise\<close> of its own; every exception comes out of a call. The calls
  that may raise in the model are: indexing the request with a missing key, decoding an
  upload, \<^verbatim>\<open>max\<close> and indexing of a shape tuple, \<^verbatim>\<open>json.loads\<close>, the constructor of the
  configuration, the model manager, a plugin, \<^verbatim>\<open>switch\<close>, \<^verbatim>\<open>with_suffix\<close> and writing the
  file. The operations on pixels (resizing, colour conversion, concatenation, encoding)
  are taken to return. Logging and wall-clock timing are left out.
\<close>

subsection \<open>Python values\<close>

type_synonym bytes = string
type_synonym path = string
type_synonym infos = "(string \<times> string) list"
type_synonym json = string

text \<open>
  An exception that is an instance of Python's \<^verbatim>\<open>Exception\<close>: its class, as far as the
  handlers look at it (\<^verbatim>\<open>except RuntimeError\<close>, \<^verbatim>\<open>type(e).__name__\<close>), and \<^verbatim>\<open>str(e)\<close>.
\<close>

datatype exc_class = RuntimeError | RuntimeError_subclass string | Other_Exception string

datatype exn = Exn (exn_class: exc_class) (exn_str: string)

fun type_name :: "exn \<Rightarrow> string" where
  "type_name (Exn RuntimeError m) = ''RuntimeError''"
| "type_name (Exn (RuntimeError_subclass n) m) = n"
| "type_name (Exn (Other_Exception n) m) = n"

fun is_RuntimeError :: "exn \<Rightarrow> bool" where
  "is_RuntimeError (Exn RuntimeError m) = True"
| "is_RuntimeError (Exn (RuntimeError_subclass n) m) = True"
| "is_RuntimeError (Exn (Other_Exception n) m) = False"

text \<open>Indexing \<^verbatim>\<open>request.files\<close> or \<^verbatim>\<open>request.form\<close> with a missing key.\<close>

definition BadRequestKeyError :: "string \<Rightarrow> exn" where
  "BadRequestKeyError k = Exn (Other_Exception ''BadRequestKeyError'') k"

definition IndexError :: exn where
  "IndexError = Exn (Other_Exception ''IndexError'') ''tuple index out of range''"

definition ValueError :: "string \<Rightarrow> exn" where
  "ValueError m = Exn (Other_Exception ''ValueError'') m"

text \<open>\<^verbatim>\<open>needle in hay\<close> on strings.\<close>

fun str_in :: "string \<Rightarrow> string \<Rightarrow> bool" where
  "str_in needle [] = (needle = [])"
| "str_in needle (c # cs) = (take (length needle) (c # cs) = needle \<or> str_in needle cs)"

text \<open>\<^verbatim>\<open>str\<close> of a non-negative integer, of an integer, and of a tuple of integers.\<close>

fun str_nat :: "nat \<Rightarrow> string" where
  "str_nat n = (if n < 10 then [''0123456789'' ! n]
                else str_nat (n div 10) @ [''0123456789'' ! (n mod 10)])"

declare str_nat.simps [simp del]

definition str_int :: "int \<Rightarrow> string" where
  "str_int i = (if i < 0 then ''-'' @ str_nat (nat (- i)) else str_nat (nat i))"

fun join_comma :: "string list \<Rightarrow> string" where
  "join_comma [] = []"
| "join_comma [x] = x"
| "join_comma (x # y # ys) = x @ '', '' @ join_comma (y # ys)"

definition str_tuple :: "nat list \<Rightarrow> string" where
  "str_tuple xs = (case xs of
       [] \<Rightarrow> ''()''
     | [x] \<Rightarrow> ''('' @ str_nat x @ '',)''
     | _ \<Rightarrow> ''('' @ join_comma (map str_nat xs) @ '')'')"

definition str_opt :: "string option \<Rightarrow> string" where
  "str_opt v = (case v of None \<Rightarrow> ''None'' | Some s \<Rightarrow> s)"

text \<open>
  A NumPy array: its \<^verbatim>\<open>shape\<close> tuple and its elements in row-major order. \<^verbatim>\<open>a.shape[:2]\<close>
  is \<open>take 2 (shape a)\<close>.
\<close>

record ndarray =
  shape :: "nat list"
  elems :: "nat list"

text \<open>\<^verbatim>\<open>max(t)\<close> of a tuple: \<^verbatim>\<open>ValueError\<close> on the empty tuple.\<close>

definition py_max :: "nat list \<Rightarrow> exn + nat" where
  "py_max t = (case t of
       [] \<Rightarrow> Inl (ValueError ''max() arg is an empty sequence'')
     | x # xs \<Rightarrow> Inr (fold max xs x))"

text \<open>
  \<^verbatim>\<open>cv2.threshold(m, thresh, maxval, cv2.THRESH_BINARY)[1]\<close>: every element above the
  threshold becomes \<open>maxval\<close>, every other element 0; the shape stays.
\<close>

definition cv2_threshold_binary :: "ndarray \<Rightarrow> nat \<Rightarrow> nat \<Rightarrow> ndarray" where
  "cv2_threshold_binary m thresh maxval =
     m\<lparr>elems := map (\<lambda>v. if thresh < v then maxval else 0) (elems m)\<rparr>"

text \<open>A PIL image, by the calls that made it.\<close>

datatype pil_image = FromArray ndarray | Convert string pil_image

datatype interpolation = INTER_CUBIC

subsection \<open>Requests, responses, outcomes\<close>

record request =
  files :: "string \<rightharpoonup> bytes"
  form :: "string \<rightharpoonup> string"

datatype body = Text string | File bytes

record response =
  status :: nat
  body :: body
  mimetype :: string
  headers :: "(string \<times> string) list"

text \<open>A view that returns \<^verbatim>\<open>(text, status)\<close>, and \<^verbatim>\<open>make_response(send_file(f, mimetype=m))\<close>.\<close>

definition text_response :: "string \<Rightarrow> nat \<Rightarrow> response" where
  "text_response t code = \<lparr>status = code, body = Text t, mimetype = ''text/html'', headers = []\<rparr>"

definition send_file :: "bytes \<Rightarrow> string \<Rightarrow> response" where
  "send_file f m = \<lparr>status = 200, body = File f, mimetype = m, headers = []\<rparr>"

text \<open>A handler returns a response, or an exception leaves it uncaught.\<close>

datatype outcome = Returned response | Raised exn

subsection \<open>Collaborators\<close>

text \<open>
  The request configuration (\<^verbatim>\<open>lama_cleaner.schema.Config\<close>): the handler reads and writes
  only \<^verbatim>\<open>sd_seed\<close>; the other validated fields are kept as a list.
\<close>

datatype kwarg_val = Raw string | Json json | Example "pil_image option"

record config =
  sd_seed :: int
  other_fields :: "(string \<times> kwarg_val) list"

text \<open>The model manager: the name the handlers read, and the rest of its state.\<close>

record model_manager =
  mm_name :: string
  mm_model :: nat

type_synonym plugin = "ndarray \<Rightarrow> (string \<rightharpoonup> bytes) \<Rightarrow> (string \<rightharpoonup> string) \<Rightarrow> exn + ndarray"

record env =
  load_img :: "bytes \<Rightarrow> bool \<Rightarrow> exn + (ndarray \<times> ndarray option \<times> infos)"
    \<comment> \<open>\<^verbatim>\<open>load_img(img_bytes, gray)\<close>: image, alpha channel, infos\<close>
  resize_max_size :: "ndarray \<Rightarrow> nat \<Rightarrow> interpolation \<Rightarrow> ndarray"
  pil_to_bytes :: "pil_image \<Rightarrow> string \<Rightarrow> nat \<Rightarrow> infos \<Rightarrow> bytes"
  numpy_to_bytes :: "ndarray \<Rightarrow> string \<Rightarrow> bytes"
  is_mac :: bool
  imghdr_what :: "bytes \<Rightarrow> string option"
  json_loads :: "string \<Rightarrow> exn + json"
  Config :: "(string \<times> kwarg_val) list \<Rightarrow> exn + config"
  randint :: "int \<Rightarrow> int \<Rightarrow> int"
  astype_uint8 :: "ndarray \<Rightarrow> ndarray"
  cv2_cvtColor_BGR2RGB :: "ndarray \<Rightarrow> ndarray"
  cv2_resize :: "ndarray \<Rightarrow> nat \<times> nat \<Rightarrow> ndarray"
    \<comment> \<open>\<^verbatim>\<open>cv2.resize(a, dsize=(width, height))\<close>\<close>
  np_newaxis :: "ndarray \<Rightarrow> ndarray"
    \<comment> \<open>\<^verbatim>\<open>a[:, :, np.newaxis]\<close>\<close>
  np_concatenate :: "ndarray \<Rightarrow> ndarray \<Rightarrow> ndarray"
    \<comment> \<open>\<^verbatim>\<open>np.concatenate((a, b), axis=-1)\<close>\<close>
  md5_hexdigest :: "bytes \<Rightarrow> string"
  mm_call :: "model_manager \<Rightarrow> ndarray \<Rightarrow> ndarray \<Rightarrow> config \<Rightarrow> (exn + ndarray) \<times> model_manager"
    \<comment> \<open>\<^verbatim>\<open>model_manager(image, mask, config)\<close>: result or exception, and the manager afterwards\<close>
  mm_switch :: "model_manager \<Rightarrow> string option \<Rightarrow> exn option \<times> model_manager"
    \<comment> \<open>\<^verbatim>\<open>model_manager.switch(new_name)\<close>\<close>
  InteractiveSeg_name :: string
  RemoveBG_name :: string
  AnimeSeg_name :: string
  path_join :: "path \<Rightarrow> string \<Rightarrow> path"
    \<comment> \<open>\<^verbatim>\<open>output_dir / filename\<close>\<close>
  with_suffix :: "path \<Rightarrow> string \<Rightarrow> exn + path"
  open_wb :: "(path \<rightharpoonup> bytes) \<Rightarrow> path \<Rightarrow> exn option"
    \<comment> \<open>whether opening and writing the file fails\<close>
  format_exc :: "exn \<Rightarrow> string"

subsection \<open>Process state\<close>

text \<open>
  \<^verbatim>\<open>GlobalConfig\<close>, with the fields the four handlers read: the file manager, the input
  image path and the desktop flag are left out.
\<close>

record global_config =
  model_manager :: model_manager
  output_dir :: "path option"
  disable_model_switch :: bool
  image_quality :: nat
  plugins :: "string \<rightharpoonup> plugin"

text \<open>The calls to collaborators that have an effect, in the order they are made.\<close>

datatype event =
    Call_resize_max_size ndarray nat interpolation
  | Call_model_manager ndarray ndarray config
  | Call_plugin string
  | Call_torch_gc
  | Call_cuda_empty_cache
  | Call_switch "string option"
  | Emit string

record world = global_config +
  trace :: "event list"
  fs :: "path \<rightharpoonup> bytes"

definition log :: "event \<Rightarrow> world \<Rightarrow> world" where
  "log ev s = s\<lparr>trace := trace s @ [ev]\<rparr>"

subsection \<open>\<^verbatim>\<open>get_image_ext\<close>\<close>

definition get_image_ext :: "env \<Rightarrow> bytes \<Rightarrow> string" where
  "get_image_ext env img_bytes =
     (case imghdr_what env img_bytes of None \<Rightarrow> ''jpeg'' | Some w \<Rightarrow> w)"

subsection \<open>\<^verbatim>\<open>POST /inpaint\<close>: \<^verbatim>\<open>process\<close>\<close>

text \<open>
  Lines 230 to 236: read and decode the image and the mask, binarise the mask. (The
  source's variables \<^verbatim>\<open>image\<close> and \<^verbatim>\<open>mask\<close> are written \<open>img\<close> and \<open>msk\<close>: the
  longer names are constants of HOL.)
\<close>

record decoded =
  d_origin_image_bytes :: bytes
  d_image :: ndarray
  d_alpha_channel :: "ndarray option"
  d_exif_infos :: infos
  d_mask :: ndarray

definition decode_request :: "env \<Rightarrow> request \<Rightarrow> exn + decoded" where
  "decode_request env req =
     (case files req ''image'' of
        None \<Rightarrow> Inl (BadRequestKeyError ''image'')
      | Some origin_image_bytes \<Rightarrow>
     (case load_img env origin_image_bytes False of
        Inl e \<Rightarrow> Inl e
      | Inr (img, alpha_channel, exif_infos) \<Rightarrow>
     (case files req ''mask'' of
        None \<Rightarrow> Inl (BadRequestKeyError ''mask'')
      | Some mask_bytes \<Rightarrow>
     (case load_img env mask_bytes True of
        Inl e \<Rightarrow> Inl e
      | Inr (msk, unused_alpha, unused_infos) \<Rightarrow>
          Inr \<lparr>d_origin_image_bytes = origin_image_bytes, d_image = img,
               d_alpha_channel = alpha_channel, d_exif_infos = exif_infos,
               d_mask = cv2_threshold_binary msk 127 255\<rparr>))))"

text \<open>
  Lines 250 to 297: the optional example image, then the keyword arguments of
  \<^verbatim>\<open>Config(...)\<close>, evaluated in the order they are written, then the constructor.
\<close>

datatype kwarg_src = Form string | Json_loads_form string | Paint_by_example

definition config_kwargs :: "(string \<times> kwarg_src) list" where
  "config_kwargs =
    [(''ldm_steps'', Form ''ldmSteps''),
     (''ldm_sampler'', Form ''ldmSampler''),
     (''hd_strategy'', Form ''hdStrategy''),
     (''zits_wireframe'', Form ''zitsWireframe''),
     (''hd_strategy_crop_margin'', Form ''hdStrategyCropMargin''),
     (''hd_strategy_crop_trigger_size'', Form ''hdStrategyCropTrigerSize''),
     (''hd_strategy_resize_limit'', Form ''hdStrategyResizeLimit''),
     (''prompt'', Form ''prompt''),
     (''negative_prompt'', Form ''negativePrompt''),
     (''use_croper'', Form ''useCroper''),
     (''croper_x'', Form ''croperX''),
     (''croper_y'', Form ''croperY''),
     (''croper_height'', Form ''croperHeight''),
     (''croper_width'', Form ''croperWidth''),
     (''use_extender'', Form ''useExtender''),
     (''extender_x'', Form ''extenderX''),
     (''extender_y'', Form ''extenderY''),
     (''extender_height'', Form ''extenderHeight''),
     (''extender_width'', Form ''extenderWidth''),
     (''sd_scale'', Form ''sdScale''),
     (''sd_mask_blur'', Form ''sdMaskBlur''),
     (''sd_strength'', Form ''sdStrength''),
     (''sd_steps'', Form ''sdSteps''),
     (''sd_guidance_scale'', Form ''sdGuidanceScale''),
     (''sd_sampler'', Form ''sdSampler''),
     (''sd_seed'', Form ''sdSeed''),
     (''sd_freeu'', Form ''enableFreeu''),
     (''sd_freeu_config'', Json_loads_form ''freeuConfig''),
     (''sd_lcm_lora'', Form ''enableLCMLora''),
     (''sd_match_histograms'', Form ''sdMatchHistograms''),
     (''cv2_flag'', Form ''cv2Flag''),
     (''cv2_radius'', Form ''cv2Radius''),
     (''paint_by_example_example_image'', Paint_by_example),
     (''p2p_image_guidance_scale'', Form ''p2pImageGuidanceScale''),
     (''enable_controlnet'', Form ''enable_controlnet''),
     (''controlnet_conditioning_scale'', Form ''controlnet_conditioning_scale''),
     (''controlnet_method'', Form ''controlnet_method''),
     (''powerpaint_task'', Form ''powerpaintTask'')]"

fun eval_kwarg :: "env \<Rightarrow> request \<Rightarrow> pil_image option \<Rightarrow> kwarg_src \<Rightarrow> exn + kwarg_val" where
  "eval_kwarg env req example (Form k) =
     (case form req k of None \<Rightarrow> Inl (BadRequestKeyError k) | Some v \<Rightarrow> Inr (Raw v))"
| "eval_kwarg env req example (Json_loads_form k) =
     (case form req k of
        None \<Rightarrow> Inl (BadRequestKeyError k)
      | Some v \<Rightarrow> (case json_loads env v of Inl e \<Rightarrow> Inl e | Inr j \<Rightarrow> Inr (Json j)))"
| "eval_kwarg env req example Paint_by_example = Inr (Example example)"

fun eval_kwargs ::
  "env \<Rightarrow> request \<Rightarrow> pil_image option \<Rightarrow> (string \<times> kwarg_src) list
     \<Rightarrow> exn + (string \<times> kwarg_val) list" where
  "eval_kwargs env req example [] = Inr []"
| "eval_kwargs env req example ((name, src) # rest) =
     (case eval_kwarg env req example src of
        Inl e \<Rightarrow> Inl e
      | Inr v \<Rightarrow>
          (case eval_kwargs env req example rest of
             Inl e \<Rightarrow> Inl e
           | Inr vs \<Rightarrow> Inr ((name, v) # vs)))"

definition parse_config :: "env \<Rightarrow> request \<Rightarrow> exn + config" where
  "parse_config env req =
     (case (case files req ''paintByExampleImage'' of
              None \<Rightarrow> Inr None
            | Some example_bytes \<Rightarrow>
                (case load_img env example_bytes False of
                   Inl e \<Rightarrow> Inl e
                 | Inr (example_image, unused_alpha, unused_infos) \<Rightarrow>
                     Inr (Some (FromArray example_image)))) of
        Inl e \<Rightarrow> Inl e
      | Inr paint_by_example_example_image \<Rightarrow>
          (case eval_kwargs env req paint_by_example_example_image config_kwargs of
             Inl e \<Rightarrow> Inl e
           | Inr kwargs \<Rightarrow> Config env kwargs))"

text \<open>Lines 299 and 300: the seed.\<close>

definition resolve_seed :: "env \<Rightarrow> config \<Rightarrow> config" where
  "resolve_seed env config =
     (if sd_seed config = - 1 then config\<lparr>sd_seed := randint env 1 99999999\<rparr> else config)"

text \<open>
  Lines 230 to 300: everything before the first buffer is resized. The result is the
  early outcome, or the values the rest of the handler uses.
\<close>

record prepared =
  p_origin_image_bytes :: bytes
  p_image :: ndarray
  p_alpha_channel :: "ndarray option"
  p_exif_infos :: infos
  p_mask :: ndarray
  p_size_limit :: nat
  p_config :: config

definition prepare :: "env \<Rightarrow> request \<Rightarrow> outcome + prepared" where
  "prepare env req =
     (case decode_request env req of
        Inl e \<Rightarrow> Inl (Raised e)
      | Inr d \<Rightarrow>
          if take 2 (shape (d_image d)) \<noteq> take 2 (shape (d_mask d)) then
            Inl (Returned (text_response
                   (''Mask shape'' @ str_tuple (take 2 (shape (d_mask d)))
                      @ '' not queal to Image shape'' @ str_tuple (take 2 (shape (d_image d))))
                   400))
          else
            (case py_max (shape (d_image d)) of
               Inl e \<Rightarrow> Inl (Raised e)
             | Inr size_limit \<Rightarrow>
                 (case parse_config env req of
                    Inl e \<Rightarrow> Inl (Raised e)
                  | Inr config \<Rightarrow>
                      Inr \<lparr>p_origin_image_bytes = d_origin_image_bytes d,
                           p_image = d_image d,
                           p_alpha_channel = d_alpha_channel d,
                           p_exif_infos = d_exif_infos d,
                           p_mask = d_mask d,
                           p_size_limit = size_limit,
                           p_config = resolve_seed env config\<rparr>)))"

text \<open>
  Lines 303 to 321: both buffers are resized, the model manager is called inside
  \<^verbatim>\<open>try\<close>, \<^verbatim>\<open>except RuntimeError\<close> turns the exception into a response, and
  \<^verbatim>\<open>finally\<close> calls \<^verbatim>\<open>torch_gc\<close>.
\<close>

definition infer :: "env \<Rightarrow> world \<Rightarrow> prepared \<Rightarrow> (outcome + ndarray) \<times> world" where
  "infer env s p =
     (let img = resize_max_size env (p_image p) (p_size_limit p) INTER_CUBIC;
          s1 = log (Call_resize_max_size (p_image p) (p_size_limit p) INTER_CUBIC) s;
          msk = resize_max_size env (p_mask p) (p_size_limit p) INTER_CUBIC;
          s2 = log (Call_resize_max_size (p_mask p) (p_size_limit p) INTER_CUBIC) s1;
          s3 = log (Call_model_manager img msk (p_config p)) s2;
          (r, mm) = mm_call env (model_manager s3) img msk (p_config p);
          s4 = log Call_torch_gc (s3\<lparr>model_manager := mm\<rparr>)
      in case r of
           Inr res_np_img \<Rightarrow> (Inr res_np_img, s4)
         | Inl e \<Rightarrow>
             if is_RuntimeError e then
               if str_in ''CUDA out of memory. '' (exn_str e) then
                 (Inl (Returned (text_response ''CUDA out of memory'' 500)), s4)
               else if str_in ''Invalid buffer size'' (exn_str e) \<and> is_mac env then
                 (Inl (Returned (text_response ''Out of memory'' 500)), s4)
               else
                 (Inl (Returned (text_response (exn_str e) 500)), s4)
             else (Inl (Raised e), s4))"

text \<open>Lines 324 to 331: the alpha channel is put back.\<close>

definition process_alpha :: "env \<Rightarrow> ndarray \<Rightarrow> ndarray option \<Rightarrow> exn + ndarray" where
  "process_alpha env res_np_img alpha_channel =
     (case alpha_channel of
        None \<Rightarrow> Inr res_np_img
      | Some alpha \<Rightarrow>
          if take 2 (shape alpha) \<noteq> take 2 (shape res_np_img) then
            if length (shape res_np_img) < 2 then Inl IndexError
            else Inr (np_concatenate env res_np_img
                        (np_newaxis env
                           (cv2_resize env alpha (shape res_np_img ! 1, shape res_np_img ! 0))))
          else Inr (np_concatenate env res_np_img (np_newaxis env alpha)))"

text \<open>Lines 323 to 354: colour order, alpha, encoding, the response and its header.\<close>

definition respond :: "env \<Rightarrow> world \<Rightarrow> prepared \<Rightarrow> ndarray \<Rightarrow> outcome \<times> world" where
  "respond env s p res =
     (case process_alpha env (cv2_cvtColor_BGR2RGB env (astype_uint8 env res)) (p_alpha_channel p) of
        Inl e \<Rightarrow> (Raised e, s)
      | Inr res_np_img \<Rightarrow>
          (let ext = get_image_ext env (p_origin_image_bytes p);
               bytes_io = pil_to_bytes env (FromArray res_np_img) ext (image_quality s) (p_exif_infos p);
               response = (send_file bytes_io (''image/'' @ ext))
                            \<lparr>headers := [(''X-Seed'', str_int (sd_seed (p_config p)))]\<rparr>
           in (Returned response, log (Emit ''diffusion_finish'') s)))"

definition process :: "env \<Rightarrow> world \<Rightarrow> request \<Rightarrow> outcome \<times> world" where
  "process env s req =
     (case prepare env req of
        Inl out \<Rightarrow> (out, s)
      | Inr p \<Rightarrow>
          (case infer env s p of
             (Inl out, s') \<Rightarrow> (out, s')
           | (Inr res_np_img, s') \<Rightarrow> respond env s' p res_np_img))"

subsection \<open>\<^verbatim>\<open>POST /run_plugin\<close>: \<^verbatim>\<open>run_plugin\<close>\<close>

text \<open>Lines 403 to 410: the alpha channel is put back.\<close>

definition run_plugin_alpha :: "env \<Rightarrow> ndarray \<Rightarrow> ndarray option \<Rightarrow> exn + ndarray" where
  "run_plugin_alpha env rgb_res alpha_channel =
     (case alpha_channel of
        None \<Rightarrow> Inr rgb_res
      | Some alpha \<Rightarrow>
          if take 2 (shape alpha) \<noteq> take 2 (shape rgb_res) then
            if length (shape rgb_res) < 2 then Inl IndexError
            else Inr (np_concatenate env rgb_res
                        (np_newaxis env
                           (cv2_resize env alpha (shape rgb_res ! 1, shape rgb_res ! 0))))
          else Inr (np_concatenate env rgb_res (np_newaxis env alpha)))"

text \<open>Lines 389 to 425: what is sent back once the plugin has returned.\<close>

definition plugin_response ::
  "env \<Rightarrow> world \<Rightarrow> string \<Rightarrow> bytes \<Rightarrow> ndarray option \<Rightarrow> infos \<Rightarrow> ndarray \<Rightarrow> outcome" where
  "plugin_response env s name origin_image_bytes alpha_channel infos bgr_res =
     (if name = InteractiveSeg_name env then
        Returned (send_file (numpy_to_bytes env bgr_res ''png'') ''image/png'')
      else if name \<in> set [RemoveBG_name env, AnimeSeg_name env] then
        Returned (send_file
                    (pil_to_bytes env (FromArray bgr_res) ''png'' (image_quality s) infos)
                    (''image/'' @ ''png''))
      else
        (let ext = get_image_ext env origin_image_bytes in
         case run_plugin_alpha env (cv2_cvtColor_BGR2RGB env bgr_res) alpha_channel of
           Inl e \<Rightarrow> Raised e
         | Inr rgb_res \<Rightarrow>
             Returned (send_file
                         (pil_to_bytes env (FromArray rgb_res) ext (image_quality s) infos)
                         (''image/'' @ ext))))"

definition run_plugin :: "env \<Rightarrow> world \<Rightarrow> request \<Rightarrow> outcome \<times> world" where
  "run_plugin env s req =
     (case form req ''name'' of
        None \<Rightarrow> (Raised (BadRequestKeyError ''name''), s)
      | Some name \<Rightarrow>
     (case plugins s name of
        None \<Rightarrow> (Returned (text_response ''Plugin not found'' 500), s)
      | Some plugin \<Rightarrow>
     (case files req ''image'' of
        None \<Rightarrow> (Raised (BadRequestKeyError ''image''), s)
      | Some origin_image_bytes \<Rightarrow>
     (case load_img env origin_image_bytes False of
        Inl e \<Rightarrow> (Raised e, s)
      | Inr (rgb_np_img, alpha_channel, infos) \<Rightarrow>
          (let form' = (if name = InteractiveSeg_name env
                        then (form req)(''img_md5'' \<mapsto> md5_hexdigest env origin_image_bytes)
                        else form req);
               s1 = log (Call_plugin name) s
           in case plugin rgb_np_img (files req) form' of
                Inl e \<Rightarrow>
                  if is_RuntimeError e then
                    (let s2 = log Call_cuda_empty_cache s1 in
                     if str_in ''CUDA out of memory. '' (exn_str e) then
                       (Returned (text_response ''CUDA out of memory'' 500), s2)
                     else
                       (Returned (text_response ''Internal Server Error'' 500), s2))
                  else (Raised e, s1)
              | Inr bgr_res \<Rightarrow>
                  (let s2 = log Call_torch_gc s1 in
                   (plugin_response env s2 name origin_image_bytes alpha_channel infos bgr_res,
                    s2)))))))"

subsection \<open>\<^verbatim>\<open>POST /save_image\<close>: \<^verbatim>\<open>save_image\<close>\<close>

text \<open>Lines 156 to 161: the alpha channel is put back.\<close>

definition save_image_alpha :: "env \<Rightarrow> ndarray \<Rightarrow> ndarray option \<Rightarrow> exn + ndarray" where
  "save_image_alpha env img alpha_channel =
     (case alpha_channel of
        None \<Rightarrow> Inr img
      | Some alpha \<Rightarrow>
          if take 2 (shape alpha) \<noteq> take 2 (shape img) then
            if length (shape img) < 2 then Inl IndexError
            else Inr (np_concatenate env img
                        (np_newaxis env (cv2_resize env alpha (shape img ! 1, shape img ! 0))))
          else Inr (np_concatenate env img (np_newaxis env alpha)))"

definition save_image :: "env \<Rightarrow> world \<Rightarrow> request \<Rightarrow> outcome \<times> world" where
  "save_image env s req =
     (case output_dir s of
        None \<Rightarrow> (Returned (text_response ''--output-dir is None'' 500), s)
      | Some dir \<Rightarrow>
     (case form req ''filename'' of
        None \<Rightarrow> (Raised (BadRequestKeyError ''filename''), s)
      | Some filename \<Rightarrow>
     (case files req ''image'' of
        None \<Rightarrow> (Raised (BadRequestKeyError ''image''), s)
      | Some origin_image_bytes \<Rightarrow>
          (let ext = ''png'' in
           case load_img env origin_image_bytes False of
             Inl e \<Rightarrow> (Raised e, s)
           | Inr (img, alpha_channel, infos) \<Rightarrow>
          (case with_suffix env (path_join env dir filename) (''.'' @ ext) of
             Inl e \<Rightarrow> (Raised e, s)
           | Inr save_path \<Rightarrow>
          (case save_image_alpha env img alpha_channel of
             Inl e \<Rightarrow> (Raised e, s)
           | Inr img' \<Rightarrow>
               (let pil_image = Convert ''RGBA'' (FromArray img');
                    img_bytes = pil_to_bytes env pil_image ext (image_quality s) infos
                in case open_wb env (fs s) save_path of
                     Some e \<Rightarrow>
                       (Returned (text_response (''Save image failed: '' @ format_exc env e) 500), s)
                   | None \<Rightarrow>
                       (Returned (text_response ''ok'' 200),
                        s\<lparr>fs := (fs s)(save_path \<mapsto> img_bytes)\<rparr>))))))))"

subsection \<open>\<^verbatim>\<open>POST /model\<close>: \<^verbatim>\<open>switch_model\<close>\<close>

definition switch_model :: "env \<Rightarrow> world \<Rightarrow> request \<Rightarrow> outcome \<times> world" where
  "switch_model env s req =
     (if disable_model_switch s then
        (Returned (text_response ''Switch model is disabled'' 400), s)
      else
        (let new_name = form req ''name'' in
         if new_name = Some (mm_name (model_manager s)) then
           (Returned (text_response ''Same model'' 200), s)
         else
           (let s1 = log (Call_switch new_name) s;
                (r, mm) = mm_switch env (model_manager s1) new_name;
                s2 = s1\<lparr>model_manager := mm\<rparr>
            in case r of
                 Some e \<Rightarrow>
                   (Returned (text_response
                      (''Switch model failed: '' @ type_name e @ '' - '' @ exn_str e) 500), s2)
               | None \<Rightarrow>
                   (Returned (text_response (''ok, switch to '' @ str_opt new_name) 200), s2))))"

subsection \<open>The compositor of the specification\<close>

text \<open>
  Section 4.5 of the specification, in its words: no-op if alpha is absent; if alpha is
  present and its spatial dimensions differ from the output buffer's, alpha is resized to
  match before channel concatenation. The handlers' three inline copies are compared
  with it below.
\<close>

definition compose :: "env \<Rightarrow> ndarray \<Rightarrow> ndarray option \<Rightarrow> exn + ndarray" where
  "compose env output_buffer alpha =
     (case alpha of
        None \<Rightarrow> Inr output_buffer
      | Some a \<Rightarrow>
          if take 2 (shape a) = take 2 (shape output_buffer) then
            Inr (np_concatenate env output_buffer (np_newaxis env a))
          else if 2 \<le> length (shape output_buffer) then
            Inr (np_concatenate env output_buffer
                   (np_newaxis env
                      (cv2_resize env a (shape output_buffer ! 1, shape output_buffer ! 0))))
          else Inl IndexError)"

text \<open>The calls a handler made: what the trace has gained between two states.\<close>

definition calls_since :: "world \<Rightarrow> world \<Rightarrow> event list" where
  "calls_since s s' = drop (length (trace s)) (trace s')"

subsection \<open>An example installation\<close>

text \<open>
  Concrete collaborators, small enough to evaluate, on which the theorems below are
  instantiated. The example codec reads the side length of a square picture off the
  length of the upload, and an alpha channel off a first byte \<open>A\<close>; the example resizer
  and colour conversion return their argument; the example backend returns the image.
\<close>

fun render_pil :: "pil_image \<Rightarrow> string" where
  "render_pil (FromArray a) = str_tuple (shape a)"
| "render_pil (Convert m p) = m @ render_pil p"

definition demo_image :: "bytes \<Rightarrow> ndarray" where
  "demo_image b =
     \<lparr>shape = [length b, length b, 3], elems = replicate (length b * length b * 3) 7\<rparr>"

definition demo_gray :: "bytes \<Rightarrow> nat \<Rightarrow> ndarray" where
  "demo_gray b v = \<lparr>shape = [length b, length b], elems = replicate (length b * length b) v\<rparr>"

definition demo_load_img :: "bytes \<Rightarrow> bool \<Rightarrow> exn + (ndarray \<times> ndarray option \<times> infos)" where
  "demo_load_img b gray =
     (if b = [] then
        Inl (Exn (Other_Exception ''UnidentifiedImageError'') ''cannot identify image file'')
      else if gray then Inr (demo_gray b 200, None, [])
      else Inr (demo_image b, (if hd b = CHR ''A'' then Some (demo_gray b 255) else None), []))"

definition demo_Config :: "(string \<times> kwarg_val) list \<Rightarrow> exn + config" where
  "demo_Config kwargs =
     (case map_of kwargs ''sd_seed'' of
        Some (Raw v) \<Rightarrow>
          if v = ''-1'' then Inr \<lparr>sd_seed = - 1, other_fields = []\<rparr>
          else if v = ''42'' then Inr \<lparr>sd_seed = 42, other_fields = []\<rparr>
          else Inl (Exn (Other_Exception ''ValidationError'') ''sd_seed'')
      | _ \<Rightarrow> Inl (Exn (Other_Exception ''ValidationError'') ''sd_seed''))"

definition demo_switch :: "model_manager \<Rightarrow> string option \<Rightarrow> exn option \<times> model_manager" where
  "demo_switch mm new_name =
     (case new_name of
        None \<Rightarrow>
          (Some (Exn (RuntimeError_subclass ''NotImplementedError'') ''Unsupported model: None''), mm)
      | Some n \<Rightarrow>
          if n \<in> set [''lama'', ''mat''] then (None, \<lparr>mm_name = n, mm_model = mm_model mm + 1\<rparr>)
          else (Some (Exn (RuntimeError_subclass ''NotImplementedError'')
                        (''Unsupported model: '' @ n)), mm))"

definition demo_env :: env where
  "demo_env =
     \<lparr>load_img = demo_load_img,
      resize_max_size = (\<lambda>a limit interp. a),
      pil_to_bytes = (\<lambda>p ext q i. ext @ render_pil p),
      numpy_to_bytes = (\<lambda>a ext. ext @ str_tuple (shape a)),
      is_mac = False,
      imghdr_what = (\<lambda>b. if hd b = CHR ''A'' then Some ''png''
                          else if hd b = CHR ''W'' then Some ''webp'' else None),
      json_loads = (\<lambda>v. Inr v),
      Config = demo_Config,
      randint = (\<lambda>a b. (a + b) div 2),
      astype_uint8 = (\<lambda>a. a),
      cv2_cvtColor_BGR2RGB = (\<lambda>a. a),
      cv2_resize = (\<lambda>a (w, h). \<lparr>shape = [h, w], elems = replicate (h * w) 255\<rparr>),
      np_newaxis = (\<lambda>a. a\<lparr>shape := shape a @ [1]\<rparr>),
      np_concatenate = (\<lambda>a b. \<lparr>shape = butlast (shape a) @ [last (shape a) + last (shape b)],
                                  elems = elems a @ elems b\<rparr>),
      md5_hexdigest = (\<lambda>b. ''md5'' @ b),
      mm_call = (\<lambda>mm img msk config. (Inr img, mm)),
      mm_switch = demo_switch,
      InteractiveSeg_name = ''InteractiveSeg'',
      RemoveBG_name = ''RemoveBG'',
      AnimeSeg_name = ''AnimeSeg'',
      path_join = (\<lambda>d f. d @ ''/'' @ f),
      with_suffix = (\<lambda>p suffix. Inr (takeWhile (\<lambda>c. c \<noteq> CHR ''.'') p @ suffix)),
      open_wb = (\<lambda>f p. None),
      format_exc = (\<lambda>e. type_name e @ '': '' @ exn_str e)\<rparr>"

text \<open>
  Example plugins: two segmentation plugins that return four channels (one at the size
  of the upload, one at a fixed size), an upscaler, and a plugin that runs out of memory.
\<close>

definition demo_plugins :: "string \<rightharpoonup> plugin" where
  "demo_plugins =
     [''RemoveBG'' \<mapsto> (\<lambda>img f fm. Inr (img\<lparr>shape := take 2 (shape img) @ [4]\<rparr>)),
      ''AnimeSeg'' \<mapsto> (\<lambda>img f fm. Inr \<lparr>shape = [4, 4, 4], elems = []\<rparr>),
      ''InteractiveSeg'' \<mapsto> (\<lambda>img f fm. Inr (img\<lparr>shape := take 2 (shape img) @ [4]\<rparr>)),
      ''RealESRGAN'' \<mapsto> (\<lambda>img f fm. Inr (img\<lparr>shape := map (\<lambda>d. 2 * d) (take 2 (shape img))
                                                          @ drop 2 (shape img)\<rparr>)),
      ''GFPGAN'' \<mapsto> (\<lambda>img f fm.
          Inl (Exn RuntimeError ''CUDA out of memory. Tried to allocate 2.00 GiB''))]"

definition demo_world :: world where
  "demo_world =
     \<lparr>model_manager = \<lparr>mm_name = ''lama'', mm_model = 0\<rparr>,
      output_dir = Some ''/out'',
      disable_model_switch = False,
      image_quality = 95,
      plugins = demo_plugins,
      trace = [],
      fs = Map.empty\<rparr>"

definition demo_request :: "bytes \<Rightarrow> bytes \<Rightarrow> string \<Rightarrow> request" where
  "demo_request image_bytes mask_bytes seed =
     \<lparr>files = [''image'' \<mapsto> image_bytes, ''mask'' \<mapsto> mask_bytes],
      form = (\<lambda>k. Some (if k = ''sdSeed'' then seed else ''0''))\<rparr>"

definition demo_form_request :: "bytes \<Rightarrow> string \<Rightarrow> string \<Rightarrow> request" where
  "demo_form_request image_bytes key val =
     \<lparr>files = [''image'' \<mapsto> image_bytes], form = [key \<mapsto> val]\<rparr>"

text \<open>The example installation with a backend that raises the given exception.\<close>

definition demo_env_raising :: "exn \<Rightarrow> env" where
  "demo_env_raising e = demo_env\<lparr>mm_call := (\<lambda>mm img msk config. (Inl e, mm))\<rparr>"

section \<open>Properties\<close>

subsection \<open>Evaluating the example installation\<close>

lemma demo_env_sel:
  "load_img demo_env = demo_load_img"
  "resize_max_size demo_env = (\<lambda>a limit interp. a)"
  "pil_to_bytes demo_env = (\<lambda>p ext q i. ext @ render_pil p)"
  "numpy_to_bytes demo_env = (\<lambda>a ext. ext @ str_tuple (shape a))"
  "is_mac demo_env = False"
  "imghdr_what demo_env = (\<lambda>b. if hd b = CHR ''A'' then Some ''png''
                                 else if hd b = CHR ''W'' then Some ''webp'' else None)"
  "json_loads demo_env = (\<lambda>v. Inr v)"
  "Config demo_env = demo_Config"
  "randint demo_env = (\<lambda>a b. (a + b) div 2)"
  "astype_uint8 demo_env = (\<lambda>a. a)"
  "cv2_cvtColor_BGR2RGB demo_env = (\<lambda>a. a)"
  "cv2_resize demo_env = (\<lambda>a (w, h). \<lparr>shape = [h, w], elems = replicate (h * w) 255\<rparr>)"
  "np_newaxis demo_env = (\<lambda>a. a\<lparr>shape := shape a @ [1]\<rparr>)"
  "np_concatenate demo_env =
     (\<lambda>a b. \<lparr>shape = butlast (shape a) @ [last (shape a) + last (shape b)],
             elems = elems a @ elems b\<rparr>)"
  "md5_hexdigest demo_env = (\<lambda>b. ''md5'' @ b)"
  "mm_call demo_env = (\<lambda>mm img msk config. (Inr img, mm))"
  "mm_switch demo_env = demo_switch"
  "InteractiveSeg_name demo_env = ''InteractiveSeg''"
  "RemoveBG_name demo_env = ''RemoveBG''"
  "AnimeSeg_name demo_env = ''AnimeSeg''"
  "path_join demo_env = (\<lambda>d f. d @ ''/'' @ f)"
  "with_suffix demo_env = (\<lambda>p suffix. Inr (takeWhile (\<lambda>c. c \<noteq> CHR ''.'') p @ suffix))"
  "open_wb demo_env = (\<lambda>f p. None)"
  "format_exc demo_env = (\<lambda>e. type_name e @ '': '' @ exn_str e)"
  by (simp_all add: demo_env_def)

lemma demo_env_raising_sel:
  "load_img (demo_env_raising e) = demo_load_img"
  "resize_max_size (demo_env_raising e) = (\<lambda>a limit interp. a)"
  "is_mac (demo_env_raising e) = False"
  "mm_call (demo_env_raising e) = (\<lambda>mm img msk config. (Inl e, mm))"
  by (simp_all add: demo_env_raising_def demo_env_def)

lemma demo_world_sel:
  "model_manager demo_world = \<lparr>mm_name = ''lama'', mm_model = 0\<rparr>"
  "output_dir demo_world = Some ''/out''"
  "disable_model_switch demo_world = False"
  "image_quality demo_world = 95"
  "plugins demo_world = demo_plugins"
  "trace demo_world = []"
  "fs demo_world = Map.empty"
  by (simp_all add: demo_world_def)

lemma demo_request_sel:
  "files (demo_request image_bytes mask_bytes seed) =
     [''image'' \<mapsto> image_bytes, ''mask'' \<mapsto> mask_bytes]"
  "form (demo_request image_bytes mask_bytes seed) =
     (\<lambda>k. Some (if k = ''sdSeed'' then seed else ''0''))"
  "files (demo_form_request image_bytes key val) = [''image'' \<mapsto> image_bytes]"
  "form (demo_form_request image_bytes key val) = [key \<mapsto> val]"
  by (simp_all add: demo_request_def demo_form_request_def)

lemmas demo_simps =
  demo_env_sel demo_env_raising_sel demo_world_sel demo_request_sel demo_load_img_def
  demo_image_def demo_gray_def demo_Config_def demo_switch_def demo_plugins_def

lemma demo_parse_config:
  "parse_config demo_env (demo_request image_bytes mask_bytes seed) =
     (if seed = ''-1'' then Inr \<lparr>sd_seed = - 1, other_fields = []\<rparr>
      else if seed = ''42'' then Inr \<lparr>sd_seed = 42, other_fields = []\<rparr>
      else Inl (Exn (Other_Exception ''ValidationError'') ''sd_seed''))"
  by (simp add: parse_config_def config_kwargs_def demo_simps)

lemma demo_raising_parse_config:
  "parse_config (demo_env_raising e) req = parse_config demo_env req"
proof -
  have "eval_kwargs (demo_env_raising e) req ex kws = eval_kwargs demo_env req ex kws"
    for ex kws
  proof (induction kws)
    case Nil
    show ?case by simp
  next
    case (Cons kw kws)
    obtain name src where kw: "kw = (name, src)"
      by (cases kw)
    have "eval_kwarg (demo_env_raising e) req ex src = eval_kwarg demo_env req ex src"
      by (cases src) (simp_all add: demo_env_raising_def split: option.splits)
    with Cons kw show ?case by (simp split: sum.splits)
  qed
  then show ?thesis
    by (simp add: parse_config_def demo_env_raising_def cong: option.case_cong sum.case_cong)
qed

lemmas process_eval =
  process_def prepare_def decode_request_def cv2_threshold_binary_def text_response_def
  str_tuple_def str_nat.simps py_max_def demo_raising_parse_config demo_parse_config
  resolve_seed_def infer_def respond_def process_alpha_def Let_def log_def get_image_ext_def
  send_file_def str_int_def BadRequestKeyError_def calls_since_def

subsection \<open>The three inline copies of the alpha step\<close>

lemma process_alpha_compose: "process_alpha env b a = compose env b a"
  by (simp add: process_alpha_def compose_def split: option.splits)

lemma run_plugin_alpha_compose: "run_plugin_alpha env b a = compose env b a"
  by (simp add: run_plugin_alpha_def compose_def split: option.splits)

lemma save_image_alpha_compose: "save_image_alpha env b a = compose env b a"
  by (simp add: save_image_alpha_def compose_def split: option.splits)

subsection \<open>The stages of \<^verbatim>\<open>process\<close>\<close>

lemma trace_log: "trace (log ev s) = trace s @ [ev]"
  by (simp add: log_def)

lemma infer_result:
  assumes "mm_call env (model_manager s)
             (resize_max_size env (p_image p) (p_size_limit p) INTER_CUBIC)
             (resize_max_size env (p_mask p) (p_size_limit p) INTER_CUBIC) (p_config p) = (r, mm)"
  shows "trace (snd (infer env s p)) = trace s @
           [Call_resize_max_size (p_image p) (p_size_limit p) INTER_CUBIC,
            Call_resize_max_size (p_mask p) (p_size_limit p) INTER_CUBIC,
            Call_model_manager (resize_max_size env (p_image p) (p_size_limit p) INTER_CUBIC)
              (resize_max_size env (p_mask p) (p_size_limit p) INTER_CUBIC) (p_config p),
            Call_torch_gc]"
    and "image_quality (snd (infer env s p)) = image_quality s"
    and "model_manager (snd (infer env s p)) = mm"
    and "fst (infer env s p) =
          (case r of
             Inr res \<Rightarrow> Inr res
           | Inl e \<Rightarrow>
               if is_RuntimeError e then
                 Inl (Returned (text_response
                   (if str_in ''CUDA out of memory. '' (exn_str e) then ''CUDA out of memory''
                    else if str_in ''Invalid buffer size'' (exn_str e) \<and> is_mac env
                    then ''Out of memory''
                    else exn_str e) 500))
               else Inl (Raised e))"
  using assms by (simp_all add: infer_def Let_def log_def split: sum.splits)

lemma respond_result:
  "respond env s p res =
     (case compose env (cv2_cvtColor_BGR2RGB env (astype_uint8 env res)) (p_alpha_channel p) of
        Inl e \<Rightarrow> (Raised e, s)
      | Inr buf \<Rightarrow>
          (Returned ((send_file
              (pil_to_bytes env (FromArray buf) (get_image_ext env (p_origin_image_bytes p))
                 (image_quality s) (p_exif_infos p))
              (''image/'' @ get_image_ext env (p_origin_image_bytes p)))
              \<lparr>headers := [(''X-Seed'', str_int (sd_seed (p_config p)))]\<rparr>),
           log (Emit ''diffusion_finish'') s))"
  by (simp add: respond_def process_alpha_compose Let_def split: sum.splits)

lemma prepare_status: "prepare env req = Inl (Returned resp) \<Longrightarrow> status resp = 400"
  by (auto simp: prepare_def text_response_def split: sum.splits if_splits)

lemma infer_status: "fst (infer env s p) = Inl (Returned resp) \<Longrightarrow> status resp = 500"
  by (cases "mm_call env (model_manager s)
               (resize_max_size env (p_image p) (p_size_limit p) INTER_CUBIC)
               (resize_max_size env (p_mask p) (p_size_limit p) INTER_CUBIC) (p_config p)")
     (auto simp: infer_result(4) text_response_def split: sum.splits if_splits)

text \<open>A response with status 200 comes from the end of the handler and from nowhere else.\<close>

lemma process_success_inv:
  assumes "process env s req = (Returned resp, s')" and "status resp = 200"
  shows "\<exists>p res mm buf.
           prepare env req = Inr p
         \<and> mm_call env (model_manager s)
               (resize_max_size env (p_image p) (p_size_limit p) INTER_CUBIC)
               (resize_max_size env (p_mask p) (p_size_limit p) INTER_CUBIC) (p_config p)
             = (Inr res, mm)
         \<and> compose env (cv2_cvtColor_BGR2RGB env (astype_uint8 env res)) (p_alpha_channel p)
             = Inr buf
         \<and> resp = (send_file
              (pil_to_bytes env (FromArray buf) (get_image_ext env (p_origin_image_bytes p))
                 (image_quality s) (p_exif_infos p))
              (''image/'' @ get_image_ext env (p_origin_image_bytes p)))
              \<lparr>headers := [(''X-Seed'', str_int (sd_seed (p_config p)))]\<rparr>
         \<and> trace s' = trace s @
              [Call_resize_max_size (p_image p) (p_size_limit p) INTER_CUBIC,
               Call_resize_max_size (p_mask p) (p_size_limit p) INTER_CUBIC,
               Call_model_manager (resize_max_size env (p_image p) (p_size_limit p) INTER_CUBIC)
                 (resize_max_size env (p_mask p) (p_size_limit p) INTER_CUBIC) (p_config p),
               Call_torch_gc, Emit ''diffusion_finish'']"
proof (cases "prepare env req")
  case (Inl out)
  with assms have "prepare env req = Inl (Returned resp)"
    by (simp add: process_def)
  from prepare_status [OF this] assms(2) show ?thesis by simp
next
  case (Inr p)
  obtain r mm where call: "mm_call env (model_manager s)
               (resize_max_size env (p_image p) (p_size_limit p) INTER_CUBIC)
               (resize_max_size env (p_mask p) (p_size_limit p) INTER_CUBIC) (p_config p) = (r, mm)"
    by (cases "mm_call env (model_manager s)
               (resize_max_size env (p_image p) (p_size_limit p) INTER_CUBIC)
               (resize_max_size env (p_mask p) (p_size_limit p) INTER_CUBIC) (p_config p)")
  note inf = infer_result [OF call]
  obtain x s1 where xs1: "infer env s p = (x, s1)"
    by (cases "infer env s p")
  show ?thesis
  proof (cases x)
    case (Inl out)
    with assms Inr xs1 have "fst (infer env s p) = Inl (Returned resp)"
      by (simp add: process_def)
    from infer_status [OF this] assms(2) show ?thesis by simp
  next
    case (Inr res)
    with inf(4) xs1 have r: "r = Inr res"
      by (auto split: sum.splits if_splits)
    from Inr xs1 \<open>prepare env req = Inr p\<close> assms(1)
    have resp: "respond env s1 p res = (Returned resp, s')"
      by (simp add: process_def)
    from inf(1,2) xs1 have s1: "trace s1 = trace s @
              [Call_resize_max_size (p_image p) (p_size_limit p) INTER_CUBIC,
               Call_resize_max_size (p_mask p) (p_size_limit p) INTER_CUBIC,
               Call_model_manager (resize_max_size env (p_image p) (p_size_limit p) INTER_CUBIC)
                 (resize_max_size env (p_mask p) (p_size_limit p) INTER_CUBIC) (p_config p),
               Call_torch_gc]" "image_quality s1 = image_quality s"
      by simp_all
    from resp s1 \<open>prepare env req = Inr p\<close> call r show ?thesis
      by (auto simp: respond_result trace_log split: sum.splits)
  qed
qed

subsection \<open>Rejecting a mask of another size\<close>

lemma decode_request_Inr:
  assumes "files req ''image'' = Some image_bytes"
      and "load_img env image_bytes False = Inr (img, alpha, infos)"
      and "files req ''mask'' = Some mask_bytes"
      and "load_img env mask_bytes True = Inr (msk, alpha', infos')"
  shows "decode_request env req =
           Inr \<lparr>d_origin_image_bytes = image_bytes, d_image = img, d_alpha_channel = alpha,
                d_exif_infos = infos, d_mask = cv2_threshold_binary msk 127 255\<rparr>"
  using assms by (simp add: decode_request_def)

lemma shape_threshold: "shape (cv2_threshold_binary m t v) = shape m"
  by (simp add: cv2_threshold_binary_def)

text \<open>
  Claim C2. When the image and the mask decode to different heights or widths,
  \<^verbatim>\<open>/inpaint\<close> answers with status 400 and a text that names both shapes, and the state is
  the one before the request: no call was made, so the model manager was not invoked.
\<close>

theorem process_rejects_shape_mismatch:
  assumes "files req ''image'' = Some image_bytes"
      and "load_img env image_bytes False = Inr (img, alpha, infos)"
      and "files req ''mask'' = Some mask_bytes"
      and "load_img env mask_bytes True = Inr (msk, alpha', infos')"
      and "take 2 (shape img) \<noteq> take 2 (shape msk)"
  shows "process env s req =
           (Returned (text_response
              (''Mask shape'' @ str_tuple (take 2 (shape msk))
                 @ '' not queal to Image shape'' @ str_tuple (take 2 (shape img))) 400), s)
       \<and> calls_since s (snd (process env s req)) = []"
  using assms(5)
  by (simp add: process_def prepare_def decode_request_Inr [OF assms(1-4)] shape_threshold
        calls_since_def text_response_def)

theorem process_rejects_shape_mismatch_witness:
  "take 2 (shape (demo_image ''JJ'')) \<noteq> take 2 (shape (demo_gray ''mmm'' 200))
   \<and> process demo_env demo_world (demo_request ''JJ'' ''mmm'' ''42'') =
       (Returned (text_response ''Mask shape(3, 3) not queal to Image shape(2, 2)'' 400),
        demo_world)
   \<and> calls_since demo_world
        (snd (process demo_env demo_world (demo_request ''JJ'' ''mmm'' ''42''))) = []"
proof -
  have 1: "files (demo_request ''JJ'' ''mmm'' ''42'') ''image'' = Some ''JJ''"
    by (simp add: demo_simps)
  have 2: "load_img demo_env ''JJ'' False = Inr (demo_image ''JJ'', None, [])"
    by (simp add: demo_env_sel demo_load_img_def)
  have 3: "files (demo_request ''JJ'' ''mmm'' ''42'') ''mask'' = Some ''mmm''"
    by (simp add: demo_simps)
  have 4: "load_img demo_env ''mmm'' True = Inr (demo_gray ''mmm'' 200, None, [])"
    by (simp add: demo_env_sel demo_load_img_def)
  have 5: "take 2 (shape (demo_image ''JJ'')) \<noteq> take 2 (shape (demo_gray ''mmm'' 200))"
    by (simp add: demo_image_def demo_gray_def)
  from process_rejects_shape_mismatch [OF 1 2 3 4 5, of demo_world] 5 show ?thesis
    by (simp add: demo_image_def demo_gray_def str_tuple_def str_nat.simps calls_since_def)
qed

subsection \<open>The seed\<close>

lemma prepare_Inr:
  assumes "prepare env req = Inr p"
  shows "\<exists>d cfg. decode_request env req = Inr d
           \<and> take 2 (shape (d_image d)) = take 2 (shape (d_mask d))
           \<and> py_max (shape (d_image d)) = Inr (p_size_limit p)
           \<and> parse_config env req = Inr cfg
           \<and> p_origin_image_bytes p = d_origin_image_bytes d
           \<and> p_image p = d_image d
           \<and> p_alpha_channel p = d_alpha_channel d
           \<and> p_exif_infos p = d_exif_infos d
           \<and> p_mask p = d_mask d
           \<and> p_config p = resolve_seed env cfg"
  using assms by (auto simp: prepare_def split: sum.splits if_splits)

lemma headers_send_file: "headers ((send_file f m)\<lparr>headers := h\<rparr>) = h"
  by (simp add: send_file_def)

text \<open>
  Claim C1. Let \<open>cfg\<close> be the configuration as parsed from the form, and let the request
  end with status 200. The seed sent back in the \<^verbatim>\<open>X-Seed\<close> header is the seed of the
  configuration the model manager was called with. If the parsed seed is \<open>-1\<close> it is the
  number \<^verbatim>\<open>random.randint(1, 99999999)\<close> drew, which lies between 1 and 99999999 as far
  as \<^verbatim>\<open>randint\<close> keeps to its range; otherwise the configuration is the parsed one, seed
  included. (That the draw is uniform is a property of \<^verbatim>\<open>random\<close>, not of the handler.)
\<close>

theorem seed_resolution:
  assumes "parse_config env req = Inr cfg"
      and "process env s req = (Returned resp, s')"
      and "status resp = 200"
      and "1 \<le> randint env 1 99999999 \<and> randint env 1 99999999 \<le> 99999999"
  shows "headers resp = [(''X-Seed'', str_int (sd_seed (resolve_seed env cfg)))]
       \<and> (\<exists>img msk. Call_model_manager img msk (resolve_seed env cfg) \<in> set (calls_since s s'))
       \<and> (if sd_seed cfg = - 1
            then sd_seed (resolve_seed env cfg) = randint env 1 99999999
               \<and> 1 \<le> sd_seed (resolve_seed env cfg)
               \<and> sd_seed (resolve_seed env cfg) \<le> 99999999
            else resolve_seed env cfg = cfg)"
proof -
  from process_success_inv [OF assms(2,3)] obtain p res mm buf where
    p: "prepare env req = Inr p"
    and resp: "resp = (send_file
              (pil_to_bytes env (FromArray buf) (get_image_ext env (p_origin_image_bytes p))
                 (image_quality s) (p_exif_infos p))
              (''image/'' @ get_image_ext env (p_origin_image_bytes p)))
              \<lparr>headers := [(''X-Seed'', str_int (sd_seed (p_config p)))]\<rparr>"
    and tr: "trace s' = trace s @
              [Call_resize_max_size (p_image p) (p_size_limit p) INTER_CUBIC,
               Call_resize_max_size (p_mask p) (p_size_limit p) INTER_CUBIC,
               Call_model_manager (resize_max_size env (p_image p) (p_size_limit p) INTER_CUBIC)
                 (resize_max_size env (p_mask p) (p_size_limit p) INTER_CUBIC) (p_config p),
               Call_torch_gc, Emit ''diffusion_finish'']"
    by blast
  from prepare_Inr [OF p] assms(1) have cfg: "p_config p = resolve_seed env cfg"
    by auto
  have "headers resp = [(''X-Seed'', str_int (sd_seed (resolve_seed env cfg)))]"
    by (simp add: resp headers_send_file cfg)
  moreover have "Call_model_manager
                   (resize_max_size env (p_image p) (p_size_limit p) INTER_CUBIC)
                   (resize_max_size env (p_mask p) (p_size_limit p) INTER_CUBIC)
                   (resolve_seed env cfg) \<in> set (calls_since s s')"
    by (simp add: calls_since_def tr cfg)
  moreover have "if sd_seed cfg = - 1
            then sd_seed (resolve_seed env cfg) = randint env 1 99999999
               \<and> 1 \<le> sd_seed (resolve_seed env cfg)
               \<and> sd_seed (resolve_seed env cfg) \<le> 99999999
            else resolve_seed env cfg = cfg"
    using assms(4) by (simp add: resolve_seed_def)
  ultimately show ?thesis by blast
qed

text \<open>
  The two requests of the specification's test: seed \<open>-1\<close>, for which the example
  generator draws 50000000, and seed 42.
\<close>

theorem seed_resolution_witness:
  "parse_config demo_env (demo_request ''JJ'' ''mm'' ''-1'')
     = Inr \<lparr>sd_seed = - 1, other_fields = []\<rparr>
 \<and> parse_config demo_env (demo_request ''JJ'' ''mm'' ''42'')
     = Inr \<lparr>sd_seed = 42, other_fields = []\<rparr>
 \<and> 1 \<le> randint demo_env 1 99999999 \<and> randint demo_env 1 99999999 \<le> 99999999
 \<and> fst (process demo_env demo_world (demo_request ''JJ'' ''mm'' ''-1''))
     = Returned \<lparr>status = 200, body = File ''jpeg(2, 2, 3)'', mimetype = ''image/jpeg'',
                  headers = [(''X-Seed'', ''50000000'')]\<rparr>
 \<and> fst (process demo_env demo_world (demo_request ''JJ'' ''mm'' ''42''))
     = Returned \<lparr>status = 200, body = File ''jpeg(2, 2, 3)'', mimetype = ''image/jpeg'',
                  headers = [(''X-Seed'', ''42'')]\<rparr>
 \<and> [(''X-Seed'', ''50000000'')]
     = [(''X-Seed'', str_int (sd_seed (resolve_seed demo_env \<lparr>sd_seed = - 1, other_fields = []\<rparr>)))]
 \<and> sd_seed (resolve_seed demo_env \<lparr>sd_seed = - 1, other_fields = []\<rparr>)
     = randint demo_env 1 99999999
 \<and> [(''X-Seed'', ''42'')]
     = [(''X-Seed'', str_int (sd_seed (resolve_seed demo_env \<lparr>sd_seed = 42, other_fields = []\<rparr>)))]
 \<and> resolve_seed demo_env \<lparr>sd_seed = 42, other_fields = []\<rparr>
     = \<lparr>sd_seed = 42, other_fields = []\<rparr>"
proof -
  let ?q1 = "demo_request ''JJ'' ''mm'' ''-1''" and ?q2 = "demo_request ''JJ'' ''mm'' ''42''"
  let ?r1 = "\<lparr>status = 200, body = File ''jpeg(2, 2, 3)'', mimetype = ''image/jpeg'',
              headers = [(''X-Seed'', ''50000000'')]\<rparr>"
  let ?r2 = "\<lparr>status = 200, body = File ''jpeg(2, 2, 3)'', mimetype = ''image/jpeg'',
              headers = [(''X-Seed'', ''42'')]\<rparr>"
  have p1: "parse_config demo_env ?q1 = Inr \<lparr>sd_seed = - 1, other_fields = []\<rparr>"
    by (simp add: demo_parse_config)
  have p2: "parse_config demo_env ?q2 = Inr \<lparr>sd_seed = 42, other_fields = []\<rparr>"
    by (simp add: demo_parse_config)
  have r: "1 \<le> randint demo_env 1 99999999 \<and> randint demo_env 1 99999999 \<le> 99999999"
    by (simp add: demo_env_sel)
  have f1: "fst (process demo_env demo_world ?q1) = Returned ?r1"
    by (simp add: process_eval demo_simps)
  have f2: "fst (process demo_env demo_world ?q2) = Returned ?r2"
    by (simp add: process_eval demo_simps)
  from f1 have e1: "process demo_env demo_world ?q1
                      = (Returned ?r1, snd (process demo_env demo_world ?q1))"
    by (simp add: prod_eq_iff)
  from f2 have e2: "process demo_env demo_world ?q2
                      = (Returned ?r2, snd (process demo_env demo_world ?q2))"
    by (simp add: prod_eq_iff)
  have s1: "status ?r1 = 200" and s2: "status ?r2 = 200"
    by simp_all
  from seed_resolution [OF p1 e1 s1 r] have c1:
    "[(''X-Seed'', ''50000000'')]
       = [(''X-Seed'', str_int (sd_seed (resolve_seed demo_env \<lparr>sd_seed = - 1, other_fields = []\<rparr>)))]
     \<and> sd_seed (resolve_seed demo_env \<lparr>sd_seed = - 1, other_fields = []\<rparr>)
       = randint demo_env 1 99999999"
    by simp
  from seed_resolution [OF p2 e2 s2 r] have c2:
    "[(''X-Seed'', ''42'')]
       = [(''X-Seed'', str_int (sd_seed (resolve_seed demo_env \<lparr>sd_seed = 42, other_fields = []\<rparr>)))]
     \<and> resolve_seed demo_env \<lparr>sd_seed = 42, other_fields = []\<rparr>
       = \<lparr>sd_seed = 42, other_fields = []\<rparr>"
    by simp
  from p1 p2 r f1 f2 c1 c2 show ?thesis by blast
qed

subsection \<open>The calls \<^verbatim>\<open>process\<close> makes\<close>

text \<open>
  Once the request is prepared, the handler resizes both buffers, calls the model manager
  and then \<^verbatim>\<open>torch_gc\<close>, whatever the model manager did; the completion event follows
  only when a response is composed.
\<close>

lemma process_calls:
  assumes "prepare env req = Inr p"
  shows "\<exists>rest. calls_since s (snd (process env s req)) =
           [Call_resize_max_size (p_image p) (p_size_limit p) INTER_CUBIC,
            Call_resize_max_size (p_mask p) (p_size_limit p) INTER_CUBIC,
            Call_model_manager (resize_max_size env (p_image p) (p_size_limit p) INTER_CUBIC)
              (resize_max_size env (p_mask p) (p_size_limit p) INTER_CUBIC) (p_config p),
            Call_torch_gc] @ rest
         \<and> (rest = [] \<or> rest = [Emit ''diffusion_finish''])"
proof -
  obtain r mm where call: "mm_call env (model_manager s)
               (resize_max_size env (p_image p) (p_size_limit p) INTER_CUBIC)
               (resize_max_size env (p_mask p) (p_size_limit p) INTER_CUBIC) (p_config p) = (r, mm)"
    by (cases "mm_call env (model_manager s)
               (resize_max_size env (p_image p) (p_size_limit p) INTER_CUBIC)
               (resize_max_size env (p_mask p) (p_size_limit p) INTER_CUBIC) (p_config p)")
  note inf = infer_result [OF call]
  obtain x s1 where xs1: "infer env s p = (x, s1)"
    by (cases "infer env s p")
  with inf(1) have s1: "trace s1 = trace s @
           [Call_resize_max_size (p_image p) (p_size_limit p) INTER_CUBIC,
            Call_resize_max_size (p_mask p) (p_size_limit p) INTER_CUBIC,
            Call_model_manager (resize_max_size env (p_image p) (p_size_limit p) INTER_CUBIC)
              (resize_max_size env (p_mask p) (p_size_limit p) INTER_CUBIC) (p_config p),
            Call_torch_gc]"
    by simp
  show ?thesis
  proof (cases x)
    case (Inl out)
    with assms xs1 have "snd (process env s req) = s1"
      by (simp add: process_def)
    with s1 show ?thesis
      by (simp add: calls_since_def)
  next
    case (Inr res)
    with assms xs1 have "snd (process env s req) = snd (respond env s1 p res)"
      by (simp add: process_def)
    with s1 show ?thesis
      by (auto simp: calls_since_def respond_result trace_log split: sum.splits)
  qed
qed

subsection \<open>The size limit\<close>

text \<open>
  Claim C7, as stated, fails: \<^verbatim>\<open>max(image.shape)\<close> runs over the whole shape tuple, and
  the shape of a decoded colour image has the channel count as its third entry. For a
  picture of 2 by 2 pixels the limit passed to \<^verbatim>\<open>resize_max_size\<close> is 3.
\<close>

theorem size_limit_counterexample:
  "shape (demo_image ''JJ'') = [2, 2, 3]
 \<and> take 2 (calls_since demo_world
       (snd (process demo_env demo_world (demo_request ''JJ'' ''mm'' ''42''))))
     = [Call_resize_max_size (demo_image ''JJ'') 3 INTER_CUBIC,
        Call_resize_max_size (cv2_threshold_binary (demo_gray ''mm'' 200) 127 255) 3 INTER_CUBIC]
 \<and> (3::nat) \<noteq> max 2 2"
  by (simp add: process_eval demo_simps)

text \<open>
  Claim C7, amended. The limit is the largest entry of the decoded image's whole shape
  tuple, height, width and channel count; it is the larger of height and width whenever
  that is at least the channel count. The image and the mask are passed to
  \<^verbatim>\<open>resize_max_size\<close> with this same limit, and these are the first two calls made.
\<close>

theorem size_limit_is_max_of_shape:
  assumes "decode_request env req = Inr d"
      and "prepare env req = Inr p"
  shows "py_max (shape (d_image d)) = Inr (p_size_limit p)
       \<and> take 2 (calls_since s (snd (process env s req))) =
           [Call_resize_max_size (d_image d) (p_size_limit p) INTER_CUBIC,
            Call_resize_max_size (d_mask d) (p_size_limit p) INTER_CUBIC]
       \<and> (\<forall>h w c. shape (d_image d) = [h, w, c] \<longrightarrow> p_size_limit p = max (max h w) c)
       \<and> (\<forall>h w c. shape (d_image d) = [h, w, c] \<and> c \<le> max h w \<longrightarrow> p_size_limit p = max h w)"
proof -
  from prepare_Inr [OF assms(2)] assms(1)
  have m: "py_max (shape (d_image d)) = Inr (p_size_limit p)"
    and i: "p_image p = d_image d" and k: "p_mask p = d_mask d"
    by auto
  from process_calls [OF assms(2), of s] i k
  have t: "take 2 (calls_since s (snd (process env s req))) =
           [Call_resize_max_size (d_image d) (p_size_limit p) INTER_CUBIC,
            Call_resize_max_size (d_mask d) (p_size_limit p) INTER_CUBIC]"
    by auto
  have "p_size_limit p = max (max h w) c" if "shape (d_image d) = [h, w, c]" for h w c
    using m that by (simp add: py_max_def max.commute max.left_commute)
  with m t show ?thesis
    by (auto simp: max_def)
qed

theorem size_limit_is_max_of_shape_witness:
  "decode_request demo_env (demo_request ''JJJJ'' ''mmmm'' ''42'')
     = Inr \<lparr>d_origin_image_bytes = ''JJJJ'', d_image = demo_image ''JJJJ'',
            d_alpha_channel = None, d_exif_infos = [],
            d_mask = cv2_threshold_binary (demo_gray ''mmmm'' 200) 127 255\<rparr>
 \<and> prepare demo_env (demo_request ''JJJJ'' ''mmmm'' ''42'')
     = Inr \<lparr>p_origin_image_bytes = ''JJJJ'', p_image = demo_image ''JJJJ'',
            p_alpha_channel = None, p_exif_infos = [],
            p_mask = cv2_threshold_binary (demo_gray ''mmmm'' 200) 127 255,
            p_size_limit = 4, p_config = \<lparr>sd_seed = 42, other_fields = []\<rparr>\<rparr>
 \<and> shape (demo_image ''JJJJ'') = [4, 4, 3] \<and> (3::nat) \<le> max 4 4
 \<and> py_max (shape (demo_image ''JJJJ'')) = Inr 4
 \<and> take 2 (calls_since demo_world
       (snd (process demo_env demo_world (demo_request ''JJJJ'' ''mmmm'' ''42''))))
     = [Call_resize_max_size (demo_image ''JJJJ'') 4 INTER_CUBIC,
        Call_resize_max_size (cv2_threshold_binary (demo_gray ''mmmm'' 200) 127 255) 4 INTER_CUBIC]
 \<and> (4::nat) = max 4 4"
proof -
  let ?q = "demo_request ''JJJJ'' ''mmmm'' ''42''"
  let ?d = "\<lparr>d_origin_image_bytes = ''JJJJ'', d_image = demo_image ''JJJJ'',
            d_alpha_channel = None, d_exif_infos = [],
            d_mask = cv2_threshold_binary (demo_gray ''mmmm'' 200) 127 255\<rparr>"
  let ?p = "\<lparr>p_origin_image_bytes = ''JJJJ'', p_image = demo_image ''JJJJ'',
            p_alpha_channel = None, p_exif_infos = [],
            p_mask = cv2_threshold_binary (demo_gray ''mmmm'' 200) 127 255,
            p_size_limit = 4, p_config = \<lparr>sd_seed = 42, other_fields = []\<rparr>\<rparr>"
  have d: "decode_request demo_env ?q = Inr ?d"
    by (simp add: decode_request_def demo_env_sel demo_request_sel demo_load_img_def)
  have p: "prepare demo_env ?q = Inr ?p"
    by (simp add: prepare_def d demo_parse_config resolve_seed_def py_max_def
          cv2_threshold_binary_def demo_image_def demo_gray_def)
  have sh: "shape (demo_image ''JJJJ'') = [4, 4, 3]" and le: "(3::nat) \<le> max 4 4"
    by (simp_all add: demo_image_def)
  from size_limit_is_max_of_shape [OF d p, of demo_world] sh le
  have c: "py_max (shape (demo_image ''JJJJ'')) = Inr 4
     \<and> take 2 (calls_since demo_world (snd (process demo_env demo_world ?q)))
         = [Call_resize_max_size (demo_image ''JJJJ'') 4 INTER_CUBIC,
            Call_resize_max_size (cv2_threshold_binary (demo_gray ''mmmm'' 200) 127 255) 4
              INTER_CUBIC]
     \<and> (4::nat) = max 4 4"
    by simp
  from d p sh le c show ?thesis by blast
qed

subsection \<open>A backend that raises\<close>

text \<open>
  Claim C3, as stated, fails: \<^verbatim>\<open>except RuntimeError\<close> catches only instances of
  \<^verbatim>\<open>RuntimeError\<close>. When the model manager raises a \<^verbatim>\<open>ValueError\<close> the handler returns
  no response at all, the exception leaves it, and no body carries the exception's text.
\<close>

theorem backend_error_counterexample:
  "fst (process (demo_env_raising (Exn (Other_Exception ''ValueError'') ''bad prompt''))
          demo_world (demo_request ''JJ'' ''mm'' ''42''))
     = Raised (Exn (Other_Exception ''ValueError'') ''bad prompt'')
 \<and> fst (process (demo_env_raising (Exn (Other_Exception ''ValueError'') ''bad prompt''))
          demo_world (demo_request ''JJ'' ''mm'' ''42''))
     \<noteq> Returned (text_response ''bad prompt'' 500)"
  by (simp add: process_eval demo_simps)

text \<open>
  Claim C3, amended to the exceptions the handler catches. When the model manager raises
  a \<^verbatim>\<open>RuntimeError\<close> (or an instance of a subclass), the response has status 500; its body
  is \<^verbatim>\<open>CUDA out of memory\<close> if the exception's text contains \<^verbatim>\<open>CUDA out of memory. \<close>,
  else \<^verbatim>\<open>Out of memory\<close> if the text contains \<^verbatim>\<open>Invalid buffer size\<close> and the host is a
  Mac, else the exception's text. An exception of any other class leaves the handler.
\<close>

theorem backend_error_response:
  assumes "prepare env req = Inr p"
      and "mm_call env (model_manager s)
             (resize_max_size env (p_image p) (p_size_limit p) INTER_CUBIC)
             (resize_max_size env (p_mask p) (p_size_limit p) INTER_CUBIC) (p_config p)
           = (Inl e, mm)"
  shows "fst (process env s req) =
           (if is_RuntimeError e then
              Returned (text_response
                (if str_in ''CUDA out of memory. '' (exn_str e) then ''CUDA out of memory''
                 else if str_in ''Invalid buffer size'' (exn_str e) \<and> is_mac env
                 then ''Out of memory''
                 else exn_str e) 500)
            else Raised e)"
proof -
  note inf = infer_result(4) [OF assms(2)]
  obtain x s1 where xs1: "infer env s p = (x, s1)"
    by (cases "infer env s p")
  with inf have "x = (if is_RuntimeError e then
              Inl (Returned (text_response
                (if str_in ''CUDA out of memory. '' (exn_str e) then ''CUDA out of memory''
                 else if str_in ''Invalid buffer size'' (exn_str e) \<and> is_mac env
                 then ''Out of memory''
                 else exn_str e) 500))
            else Inl (Raised e))"
    by simp
  with assms(1) xs1 show ?thesis
    by (simp add: process_def)
qed

text \<open>
  An out-of-memory error, a \<^verbatim>\<open>RuntimeError\<close> with another text, and an instance of a
  subclass of \<^verbatim>\<open>RuntimeError\<close>.
\<close>

theorem backend_error_response_witness:
  "prepare (demo_env_raising (Exn RuntimeError ''CUDA out of memory. Tried to allocate 20.00 MiB''))
     (demo_request ''JJ'' ''mm'' ''42'')
     = Inr \<lparr>p_origin_image_bytes = ''JJ'', p_image = demo_image ''JJ'',
            p_alpha_channel = None, p_exif_infos = [],
            p_mask = cv2_threshold_binary (demo_gray ''mm'' 200) 127 255,
            p_size_limit = 3, p_config = \<lparr>sd_seed = 42, other_fields = []\<rparr>\<rparr>
 \<and> fst (process (demo_env_raising (Exn RuntimeError ''CUDA out of memory. Tried to allocate 20.00 MiB''))
          demo_world (demo_request ''JJ'' ''mm'' ''42''))
     = Returned (text_response ''CUDA out of memory'' 500)
 \<and> fst (process (demo_env_raising (Exn RuntimeError ''expected 4D input''))
          demo_world (demo_request ''JJ'' ''mm'' ''42''))
     = Returned (text_response ''expected 4D input'' 500)
 \<and> fst (process (demo_env_raising (Exn (RuntimeError_subclass ''NotImplementedError'') ''no such sampler''))
          demo_world (demo_request ''JJ'' ''mm'' ''42''))
     = Returned (text_response ''no such sampler'' 500)"
proof -
  let ?q = "demo_request ''JJ'' ''mm'' ''42''"
  let ?p = "\<lparr>p_origin_image_bytes = ''JJ'', p_image = demo_image ''JJ'',
            p_alpha_channel = None, p_exif_infos = [],
            p_mask = cv2_threshold_binary (demo_gray ''mm'' 200) 127 255,
            p_size_limit = 3, p_config = \<lparr>sd_seed = 42, other_fields = []\<rparr>\<rparr>"
  have p: "prepare (demo_env_raising e) ?q = Inr ?p" for e
    by (simp add: prepare_def decode_request_def demo_raising_parse_config demo_parse_config
          resolve_seed_def py_max_def cv2_threshold_binary_def demo_simps)
  have c: "mm_call (demo_env_raising e) (model_manager demo_world)
             (resize_max_size (demo_env_raising e) (p_image ?p) (p_size_limit ?p) INTER_CUBIC)
             (resize_max_size (demo_env_raising e) (p_mask ?p) (p_size_limit ?p) INTER_CUBIC)
             (p_config ?p)
           = (Inl e, model_manager demo_world)" for e
    by (simp add: demo_env_raising_sel)
  from backend_error_response [OF p c]
  have 1: "fst (process (demo_env_raising (Exn RuntimeError ''CUDA out of memory. Tried to allocate 20.00 MiB''))
             demo_world ?q) = Returned (text_response ''CUDA out of memory'' 500)"
    by simp
  from backend_error_response [OF p c]
  have 2: "fst (process (demo_env_raising (Exn RuntimeError ''expected 4D input'')) demo_world ?q)
             = Returned (text_response ''expected 4D input'' 500)"
    by (simp add: demo_env_raising_sel)
  from backend_error_response [OF p c]
  have 3: "fst (process (demo_env_raising (Exn (RuntimeError_subclass ''NotImplementedError'')
             ''no such sampler'')) demo_world ?q)
             = Returned (text_response ''no such sampler'' 500)"
    by (simp add: demo_env_raising_sel)
  from p 1 2 3 show ?thesis by blast
qed

subsection \<open>Switching the model\<close>

text \<open>
  Claim C8. With model switching disabled, \<^verbatim>\<open>POST /model\<close> answers 400 and makes no call.
  Otherwise, for a name other than the current one, \<^verbatim>\<open>switch\<close> is called: if it raises,
  the answer is 500 with the text \<^verbatim>\<open>Switch model failed: <type> - <description>\<close>; if it
  returns, the answer is 200. For the current name the answer is 200 as well.
\<close>

theorem switch_model_responses:
  "(disable_model_switch s \<longrightarrow>
      switch_model env s req = (Returned (text_response ''Switch model is disabled'' 400), s)
    \<and> calls_since s (snd (switch_model env s req)) = [])
 \<and> (\<not> disable_model_switch s \<and> form req ''name'' \<noteq> Some (mm_name (model_manager s))
      \<and> mm_switch env (model_manager s) (form req ''name'') = (Some e, mm) \<longrightarrow>
      switch_model env s req =
        (Returned (text_response
           (''Switch model failed: '' @ type_name e @ '' - '' @ exn_str e) 500),
         (log (Call_switch (form req ''name'')) s)\<lparr>model_manager := mm\<rparr>))
 \<and> (\<not> disable_model_switch s \<and> form req ''name'' \<noteq> Some (mm_name (model_manager s))
      \<and> mm_switch env (model_manager s) (form req ''name'') = (None, mm) \<longrightarrow>
      switch_model env s req =
        (Returned (text_response (''ok, switch to '' @ str_opt (form req ''name'')) 200),
         (log (Call_switch (form req ''name'')) s)\<lparr>model_manager := mm\<rparr>))
 \<and> (\<not> disable_model_switch s \<and> form req ''name'' = Some (mm_name (model_manager s)) \<longrightarrow>
      fst (switch_model env s req) = Returned (text_response ''Same model'' 200))"
  by (simp add: switch_model_def Let_def calls_since_def log_def)

theorem switch_model_responses_witness:
  "disable_model_switch (demo_world\<lparr>disable_model_switch := True\<rparr>)
 \<and> switch_model demo_env (demo_world\<lparr>disable_model_switch := True\<rparr>)
       (demo_form_request [] ''name'' ''mat'')
     = (Returned (text_response ''Switch model is disabled'' 400),
        demo_world\<lparr>disable_model_switch := True\<rparr>)
 \<and> \<not> disable_model_switch demo_world
 \<and> form (demo_form_request [] ''name'' ''sdxl'') ''name'' \<noteq> Some (mm_name (model_manager demo_world))
 \<and> mm_switch demo_env (model_manager demo_world) (form (demo_form_request [] ''name'' ''sdxl'') ''name'')
     = (Some (Exn (RuntimeError_subclass ''NotImplementedError'') ''Unsupported model: sdxl''),
        model_manager demo_world)
 \<and> fst (switch_model demo_env demo_world (demo_form_request [] ''name'' ''sdxl''))
     = Returned (text_response
         ''Switch model failed: NotImplementedError - Unsupported model: sdxl'' 500)
 \<and> form (demo_form_request [] ''name'' ''mat'') ''name'' \<noteq> Some (mm_name (model_manager demo_world))
 \<and> mm_switch demo_env (model_manager demo_world) (form (demo_form_request [] ''name'' ''mat'') ''name'')
     = (None, \<lparr>mm_name = ''mat'', mm_model = 1\<rparr>)
 \<and> fst (switch_model demo_env demo_world (demo_form_request [] ''name'' ''mat''))
     = Returned (text_response ''ok, switch to mat'' 200)
 \<and> model_manager (snd (switch_model demo_env demo_world (demo_form_request [] ''name'' ''mat'')))
     = \<lparr>mm_name = ''mat'', mm_model = 1\<rparr>
 \<and> form (demo_form_request [] ''name'' ''lama'') ''name'' = Some (mm_name (model_manager demo_world))
 \<and> fst (switch_model demo_env demo_world (demo_form_request [] ''name'' ''lama''))
     = Returned (text_response ''Same model'' 200)"
proof -
  let ?locked = "demo_world\<lparr>disable_model_switch := True\<rparr>"
  let ?bad = "demo_form_request [] ''name'' ''sdxl''"
  let ?good = "demo_form_request [] ''name'' ''mat''"
  let ?same = "demo_form_request [] ''name'' ''lama''"
  let ?e = "Exn (RuntimeError_subclass ''NotImplementedError'') ''Unsupported model: sdxl''"
  have d: "disable_model_switch ?locked"
    by simp
  have n: "\<not> disable_model_switch demo_world"
    by (simp add: demo_world_sel)
  have b1: "form ?bad ''name'' \<noteq> Some (mm_name (model_manager demo_world))"
    by (simp add: demo_simps)
  have b2: "mm_switch demo_env (model_manager demo_world) (form ?bad ''name'')
              = (Some ?e, model_manager demo_world)"
    by (simp add: demo_simps)
  have g1: "form ?good ''name'' \<noteq> Some (mm_name (model_manager demo_world))"
    by (simp add: demo_simps)
  have g2: "mm_switch demo_env (model_manager demo_world) (form ?good ''name'')
              = (None, \<lparr>mm_name = ''mat'', mm_model = 1\<rparr>)"
    by (simp add: demo_simps)
  have s1: "form ?same ''name'' = Some (mm_name (model_manager demo_world))"
    by (simp add: demo_simps)
  from switch_model_responses [where s = ?locked and env = demo_env and req = ?good] d
  have 1: "switch_model demo_env ?locked ?good
             = (Returned (text_response ''Switch model is disabled'' 400), ?locked)"
    by blast
  from switch_model_responses [where s = demo_world and req = ?bad and e = ?e
      and mm = "model_manager demo_world" and env = demo_env] n b1 b2
  have 2: "fst (switch_model demo_env demo_world ?bad)
     = Returned (text_response
         ''Switch model failed: NotImplementedError - Unsupported model: sdxl'' 500)"
    by simp
  from switch_model_responses [where s = demo_world and req = ?good
      and mm = "\<lparr>mm_name = ''mat'', mm_model = 1\<rparr>" and env = demo_env] n g1 g2
  have 3: "fst (switch_model demo_env demo_world ?good)
             = Returned (text_response ''ok, switch to mat'' 200)
         \<and> model_manager (snd (switch_model demo_env demo_world ?good))
             = \<lparr>mm_name = ''mat'', mm_model = 1\<rparr>"
    by (simp add: str_opt_def demo_request_sel)
  from switch_model_responses [where s = demo_world and req = ?same and env = demo_env] n s1
  have 4: "fst (switch_model demo_env demo_world ?same)
             = Returned (text_response ''Same model'' 200)"
    by blast
  from d n b1 b2 g1 g2 s1 1 2 3 4 show ?thesis by blast
qed

text \<open>
  Claim C9, as stated, fails: the guard on \<^verbatim>\<open>disable_model_switch\<close> comes first, so a
  request for the current model is answered 400 when switching is disabled.
\<close>

theorem same_model_counterexample:
  "form (demo_form_request [] ''name'' ''lama'') ''name''
     = Some (mm_name (model_manager (demo_world\<lparr>disable_model_switch := True\<rparr>)))
 \<and> fst (switch_model demo_env (demo_world\<lparr>disable_model_switch := True\<rparr>)
          (demo_form_request [] ''name'' ''lama''))
     = Returned (text_response ''Switch model is disabled'' 400)
 \<and> status (text_response ''Switch model is disabled'' 400) \<noteq> 200"
  by (simp add: switch_model_def demo_simps text_response_def)

text \<open>
  Claim C9, amended. When switching is not disabled and the requested name is the name
  of the current model, the answer is 200 with the text \<^verbatim>\<open>Same model\<close>, \<^verbatim>\<open>switch\<close> is not
  called, and the state, the model manager in it, is the one before the request.
\<close>

theorem same_model_no_switch:
  assumes "\<not> disable_model_switch s"
      and "form req ''name'' = Some (mm_name (model_manager s))"
  shows "switch_model env s req = (Returned (text_response ''Same model'' 200), s)
       \<and> calls_since s (snd (switch_model env s req)) = []
       \<and> model_manager (snd (switch_model env s req)) = model_manager s"
  using assms by (simp add: switch_model_def calls_since_def)

theorem same_model_no_switch_witness:
  "\<not> disable_model_switch demo_world
 \<and> form (demo_form_request [] ''name'' ''lama'') ''name'' = Some (mm_name (model_manager demo_world))
 \<and> switch_model demo_env demo_world (demo_form_request [] ''name'' ''lama'')
     = (Returned (text_response ''Same model'' 200), demo_world)"
proof -
  have n: "\<not> disable_model_switch demo_world"
    by (simp add: demo_world_sel)
  have s: "form (demo_form_request [] ''name'' ''lama'') ''name''
             = Some (mm_name (model_manager demo_world))"
    by (simp add: demo_simps)
  from same_model_no_switch [OF n s, of demo_env] n s show ?thesis by blast
qed

subsection \<open>What \<^verbatim>\<open>run_plugin\<close> and \<^verbatim>\<open>save_image\<close> do when they succeed\<close>

lemma plugin_response_result:
  "plugin_response env s name origin_image_bytes alpha_channel infos bgr_res =
     (if name = InteractiveSeg_name env then
        Returned (send_file (numpy_to_bytes env bgr_res ''png'') ''image/png'')
      else if name = RemoveBG_name env \<or> name = AnimeSeg_name env then
        Returned (send_file
                    (pil_to_bytes env (FromArray bgr_res) ''png'' (image_quality s) infos)
                    ''image/png'')
      else
        (case compose env (cv2_cvtColor_BGR2RGB env bgr_res) alpha_channel of
           Inl e \<Rightarrow> Raised e
         | Inr buf \<Rightarrow>
             Returned (send_file
                         (pil_to_bytes env (FromArray buf) (get_image_ext env origin_image_bytes)
                            (image_quality s) infos)
                         (''image/'' @ get_image_ext env origin_image_bytes))))"
  by (auto simp: plugin_response_def run_plugin_alpha_compose Let_def split: sum.splits)

lemma plugin_response_log:
  "plugin_response env (log ev s) name origin_image_bytes alpha_channel infos bgr_res
     = plugin_response env s name origin_image_bytes alpha_channel infos bgr_res"
  by (simp add: plugin_response_def log_def Let_def cong: sum.case_cong)

lemma run_plugin_success_inv:
  assumes "run_plugin env s req = (Returned resp, s')" and "status resp = 200"
  shows "\<exists>name plugin origin_image_bytes rgb_np_img alpha_channel infos bgr_res.
           form req ''name'' = Some name
         \<and> plugins s name = Some plugin
         \<and> files req ''image'' = Some origin_image_bytes
         \<and> load_img env origin_image_bytes False = Inr (rgb_np_img, alpha_channel, infos)
         \<and> plugin rgb_np_img (files req)
              (if name = InteractiveSeg_name env
               then (form req)(''img_md5'' \<mapsto> md5_hexdigest env origin_image_bytes)
               else form req) = Inr bgr_res
         \<and> plugin_response env s name origin_image_bytes alpha_channel infos bgr_res
              = Returned resp
         \<and> calls_since s s' = [Call_plugin name, Call_torch_gc]"
  using assms
  by (auto simp: run_plugin_def Let_def text_response_def plugin_response_log trace_log
        calls_since_def
      split: option.splits sum.splits if_splits)

lemma save_image_success_inv:
  assumes "save_image env s req = (Returned resp, s')" and "status resp = 200"
  shows "\<exists>dir filename origin_image_bytes img alpha_channel infos save_path buf.
           output_dir s = Some dir
         \<and> form req ''filename'' = Some filename
         \<and> files req ''image'' = Some origin_image_bytes
         \<and> load_img env origin_image_bytes False = Inr (img, alpha_channel, infos)
         \<and> with_suffix env (path_join env dir filename) ''.png'' = Inr save_path
         \<and> compose env img alpha_channel = Inr buf
         \<and> resp = text_response ''ok'' 200
         \<and> s' = s\<lparr>fs := (fs s)(save_path \<mapsto>
                    pil_to_bytes env (Convert ''RGBA'' (FromArray buf)) ''png''
                      (image_quality s) infos)\<rparr>"
  using assms
  by (auto simp: save_image_def Let_def text_response_def save_image_alpha_compose
      split: option.splits sum.splits if_splits)

subsection \<open>Memory reclamation\<close>

lemmas plugin_eval =
  run_plugin_def plugin_response_def run_plugin_alpha_def Let_def log_def text_response_def
  send_file_def get_image_ext_def str_tuple_def str_nat.simps calls_since_def
  BadRequestKeyError_def

text \<open>
  On \<^verbatim>\<open>/inpaint\<close> the call of \<^verbatim>\<open>torch_gc\<close> sits in \<^verbatim>\<open>finally\<close>: it follows the call of the
  model manager whether that returned or raised, and whatever it raised.
\<close>

lemma process_torch_gc_after_model_manager:
  assumes "prepare env req = Inr p"
  shows "\<exists>img msk. take 2 (drop 2 (calls_since s (snd (process env s req))))
           = [Call_model_manager img msk (p_config p), Call_torch_gc]"
  using process_calls [OF assms, of s] by auto

text \<open>On \<^verbatim>\<open>/run_plugin\<close> it follows the plugin only when the plugin returned.\<close>

lemma run_plugin_calls:
  assumes "form req ''name'' = Some name"
      and "plugins s name = Some plugin"
      and "files req ''image'' = Some origin_image_bytes"
      and "load_img env origin_image_bytes False = Inr (rgb_np_img, alpha_channel, infos)"
  shows "calls_since s (snd (run_plugin env s req)) =
           (case plugin rgb_np_img (files req)
                   (if name = InteractiveSeg_name env
                    then (form req)(''img_md5'' \<mapsto> md5_hexdigest env origin_image_bytes)
                    else form req) of
              Inr bgr_res \<Rightarrow> [Call_plugin name, Call_torch_gc]
            | Inl e \<Rightarrow>
                if is_RuntimeError e then [Call_plugin name, Call_cuda_empty_cache]
                else [Call_plugin name])"
  using assms
  by (simp add: run_plugin_def Let_def trace_log calls_since_def split: sum.splits)

text \<open>
  Claim C4 holds on \<^verbatim>\<open>/inpaint\<close> and fails on \<^verbatim>\<open>/run_plugin\<close>. The example plugin
  \<^verbatim>\<open>GFPGAN\<close> raises a \<^verbatim>\<open>RuntimeError\<close> for running out of memory: the handler calls
  \<^verbatim>\<open>torch.cuda.empty_cache()\<close>, answers 500 and returns; \<^verbatim>\<open>torch_gc\<close> is not called.
\<close>

theorem run_plugin_error_skips_torch_gc:
  "run_plugin demo_env demo_world (demo_form_request ''JJ'' ''name'' ''GFPGAN'')
     = (Returned (text_response ''CUDA out of memory'' 500),
        demo_world\<lparr>trace := [Call_plugin ''GFPGAN'', Call_cuda_empty_cache]\<rparr>)
 \<and> Call_torch_gc \<notin> set (calls_since demo_world
       (snd (run_plugin demo_env demo_world (demo_form_request ''JJ'' ''name'' ''GFPGAN''))))"
  by (simp add: plugin_eval demo_simps)

subsection \<open>The format of the response\<close>

lemma decode_request_origin:
  "decode_request env req = Inr d \<Longrightarrow> files req ''image'' = Some (d_origin_image_bytes d)"
  by (auto simp: decode_request_def split: option.splits sum.splits)

lemma send_file_fields:
  "mimetype (send_file f m) = m"
  "body (send_file f m) = File f"
  "mimetype ((send_file f m)\<lparr>headers := h\<rparr>) = m"
  "body ((send_file f m)\<lparr>headers := h\<rparr>) = File f"
  by (simp_all add: send_file_def)

text \<open>
  Claim C6. \<^verbatim>\<open>get_image_ext\<close> is what \<^verbatim>\<open>imghdr\<close> sniffs from the bytes, and \<^verbatim>\<open>jpeg\<close> when it
  sniffs nothing. A successful \<^verbatim>\<open>/inpaint\<close> response is encoded in, and labelled with, the
  format of the uploaded bytes: a function of the upload alone, in which no form field
  takes part. A successful \<^verbatim>\<open>/run_plugin\<close> response is \<^verbatim>\<open>png\<close> for the plugins
  InteractiveSeg, RemoveBG and AnimeSeg, and has the format of the uploaded bytes for
  every other plugin.
\<close>

theorem response_format:
  "get_image_ext env b = (case imghdr_what env b of None \<Rightarrow> ''jpeg'' | Some w \<Rightarrow> w)
 \<and> (process env s req = (Returned resp, s') \<and> status resp = 200 \<longrightarrow>
      (\<exists>upload buf infos.
          files req ''image'' = Some upload
        \<and> mimetype resp = ''image/'' @ get_image_ext env upload
        \<and> body resp = File (pil_to_bytes env (FromArray buf) (get_image_ext env upload)
                              (image_quality s) infos)))
 \<and> (run_plugin env t preq = (Returned presp, t') \<and> status presp = 200 \<longrightarrow>
      (\<exists>name upload buf infos.
          form preq ''name'' = Some name
        \<and> files preq ''image'' = Some upload
        \<and> (if name = InteractiveSeg_name env then
              mimetype presp = ''image/png''
            \<and> body presp = File (numpy_to_bytes env buf ''png'')
            else if name = RemoveBG_name env \<or> name = AnimeSeg_name env then
              mimetype presp = ''image/png''
            \<and> body presp = File (pil_to_bytes env (FromArray buf) ''png'' (image_quality t) infos)
            else
              mimetype presp = ''image/'' @ get_image_ext env upload
            \<and> body presp = File (pil_to_bytes env (FromArray buf) (get_image_ext env upload)
                                   (image_quality t) infos))))"
proof (intro conjI impI)
  show "get_image_ext env b = (case imghdr_what env b of None \<Rightarrow> ''jpeg'' | Some w \<Rightarrow> w)"
    by (simp add: get_image_ext_def)
next
  assume a: "process env s req = (Returned resp, s') \<and> status resp = 200"
  then obtain p buf where p: "prepare env req = Inr p"
    and resp: "resp = (send_file
              (pil_to_bytes env (FromArray buf) (get_image_ext env (p_origin_image_bytes p))
                 (image_quality s) (p_exif_infos p))
              (''image/'' @ get_image_ext env (p_origin_image_bytes p)))
              \<lparr>headers := [(''X-Seed'', str_int (sd_seed (p_config p)))]\<rparr>"
    using process_success_inv [of env s req resp s'] by blast
  from prepare_Inr [OF p] have "files req ''image'' = Some (p_origin_image_bytes p)"
    by (auto dest: decode_request_origin)
  with resp show "\<exists>upload buf infos.
          files req ''image'' = Some upload
        \<and> mimetype resp = ''image/'' @ get_image_ext env upload
        \<and> body resp = File (pil_to_bytes env (FromArray buf) (get_image_ext env upload)
                              (image_quality s) infos)"
    by (auto simp: send_file_fields)
next
  assume a: "run_plugin env t preq = (Returned presp, t') \<and> status presp = 200"
  then obtain name upload alpha_channel infos bgr_res where
    n: "form preq ''name'' = Some name" and u: "files preq ''image'' = Some upload"
    and r: "plugin_response env t name upload alpha_channel infos bgr_res = Returned presp"
    using run_plugin_success_inv [of env t preq presp t'] by blast
  from r have "if name = InteractiveSeg_name env then
              mimetype presp = ''image/png''
            \<and> (\<exists>buf. body presp = File (numpy_to_bytes env buf ''png''))
            else if name = RemoveBG_name env \<or> name = AnimeSeg_name env then
              mimetype presp = ''image/png''
            \<and> (\<exists>buf. body presp
                  = File (pil_to_bytes env (FromArray buf) ''png'' (image_quality t) infos))
            else
              mimetype presp = ''image/'' @ get_image_ext env upload
            \<and> (\<exists>buf. body presp
                  = File (pil_to_bytes env (FromArray buf) (get_image_ext env upload)
                                   (image_quality t) infos))"
    by (auto simp: plugin_response_result send_file_fields split: if_splits sum.splits)
  with n u show "\<exists>name upload buf infos.
          form preq ''name'' = Some name
        \<and> files preq ''image'' = Some upload
        \<and> (if name = InteractiveSeg_name env then
              mimetype presp = ''image/png''
            \<and> body presp = File (numpy_to_bytes env buf ''png'')
            else if name = RemoveBG_name env \<or> name = AnimeSeg_name env then
              mimetype presp = ''image/png''
            \<and> body presp = File (pil_to_bytes env (FromArray buf) ''png'' (image_quality t) infos)
            else
              mimetype presp = ''image/'' @ get_image_ext env upload
            \<and> body presp = File (pil_to_bytes env (FromArray buf) (get_image_ext env upload)
                                   (image_quality t) infos))"
    by (auto split: if_splits)
qed

text \<open>
  An upload that sniffs as \<^verbatim>\<open>webp\<close>, sent to \<^verbatim>\<open>/inpaint\<close>, to the upscaler and to two
  segmentation plugins, and an upload that \<^verbatim>\<open>imghdr\<close> does not recognise.
\<close>

theorem response_format_witness:
  "get_image_ext demo_env ''WW'' = (case imghdr_what demo_env ''WW'' of None \<Rightarrow> ''jpeg'' | Some w \<Rightarrow> w)
 \<and> imghdr_what demo_env ''WW'' = Some ''webp'' \<and> imghdr_what demo_env ''JJ'' = None
 \<and> fst (process demo_env demo_world (demo_request ''WW'' ''mm'' ''42''))
     = Returned \<lparr>status = 200, body = File ''webp(2, 2, 3)'', mimetype = ''image/webp'',
                  headers = [(''X-Seed'', ''42'')]\<rparr>
 \<and> ''image/webp'' = ''image/'' @ get_image_ext demo_env ''WW''
 \<and> fst (process demo_env demo_world (demo_request ''JJ'' ''mm'' ''42''))
     = Returned \<lparr>status = 200, body = File ''jpeg(2, 2, 3)'', mimetype = ''image/jpeg'',
                  headers = [(''X-Seed'', ''42'')]\<rparr>
 \<and> ''image/jpeg'' = ''image/'' @ get_image_ext demo_env ''JJ''
 \<and> fst (run_plugin demo_env demo_world (demo_form_request ''WW'' ''name'' ''RealESRGAN''))
     = Returned \<lparr>status = 200, body = File ''webp(4, 4, 3)'', mimetype = ''image/webp'',
                  headers = []\<rparr>
 \<and> mimetype \<lparr>status = 200, body = File ''webp(4, 4, 3)'', mimetype = ''image/webp'',
               headers = []\<rparr>
     = ''image/'' @ get_image_ext demo_env ''WW''
 \<and> fst (run_plugin demo_env demo_world (demo_form_request ''WW'' ''name'' ''RemoveBG''))
     = Returned \<lparr>status = 200, body = File ''png(2, 2, 4)'', mimetype = ''image/png'',
                  headers = []\<rparr>
 \<and> fst (run_plugin demo_env demo_world (demo_form_request ''WW'' ''name'' ''InteractiveSeg''))
     = Returned \<lparr>status = 200, body = File ''png(2, 2, 4)'', mimetype = ''image/png'',
                  headers = []\<rparr>"
proof -
  let ?q1 = "demo_request ''WW'' ''mm'' ''42''" and ?q2 = "demo_request ''JJ'' ''mm'' ''42''"
  let ?r1 = "\<lparr>status = 200, body = File ''webp(2, 2, 3)'', mimetype = ''image/webp'',
              headers = [(''X-Seed'', ''42'')]\<rparr>"
  let ?r2 = "\<lparr>status = 200, body = File ''jpeg(2, 2, 3)'', mimetype = ''image/jpeg'',
              headers = [(''X-Seed'', ''42'')]\<rparr>"
  have w: "imghdr_what demo_env ''WW'' = Some ''webp''" and j: "imghdr_what demo_env ''JJ'' = None"
    by (simp_all add: demo_env_sel)
  have f1: "fst (process demo_env demo_world ?q1) = Returned ?r1"
    by (simp add: process_eval demo_simps)
  have f2: "fst (process demo_env demo_world ?q2) = Returned ?r2"
    by (simp add: process_eval demo_simps)
  have u1: "files ?q1 ''image'' = Some ''WW''" and u2: "files ?q2 ''image'' = Some ''JJ''"
    by (simp_all add: demo_request_sel)
  from f1 have e1: "process demo_env demo_world ?q1
                      = (Returned ?r1, snd (process demo_env demo_world ?q1)) \<and> status ?r1 = 200"
    by (simp add: prod_eq_iff)
  from f2 have e2: "process demo_env demo_world ?q2
                      = (Returned ?r2, snd (process demo_env demo_world ?q2)) \<and> status ?r2 = 200"
    by (simp add: prod_eq_iff)
  from response_format [where env = demo_env and b = "''WW''"]
  have g: "get_image_ext demo_env ''WW''
             = (case imghdr_what demo_env ''WW'' of None \<Rightarrow> ''jpeg'' | Some w \<Rightarrow> w)"
    by blast
  from response_format [where env = demo_env and s = demo_world and req = ?q1 and resp = ?r1
      and s' = "snd (process demo_env demo_world ?q1)"] e1 u1
  have c1: "''image/webp'' = ''image/'' @ get_image_ext demo_env ''WW''"
    by auto
  from response_format [where env = demo_env and s = demo_world and req = ?q2 and resp = ?r2
      and s' = "snd (process demo_env demo_world ?q2)"] e2 u2
  have c2: "''image/jpeg'' = ''image/'' @ get_image_ext demo_env ''JJ''"
    by auto
  have p1: "fst (run_plugin demo_env demo_world (demo_form_request ''WW'' ''name'' ''RealESRGAN''))
     = Returned \<lparr>status = 200, body = File ''webp(4, 4, 3)'', mimetype = ''image/webp'',
                  headers = []\<rparr>"
    by (simp add: plugin_eval demo_simps compose_def)
  have p2: "fst (run_plugin demo_env demo_world (demo_form_request ''WW'' ''name'' ''RemoveBG''))
     = Returned \<lparr>status = 200, body = File ''png(2, 2, 4)'', mimetype = ''image/png'',
                  headers = []\<rparr>"
    by (simp add: plugin_eval demo_simps)
  have p3: "fst (run_plugin demo_env demo_world (demo_form_request ''WW'' ''name'' ''InteractiveSeg''))
     = Returned \<lparr>status = 200, body = File ''png(2, 2, 4)'', mimetype = ''image/png'',
                  headers = []\<rparr>"
    by (simp add: plugin_eval demo_simps)
  let ?q3 = "demo_form_request ''WW'' ''name'' ''RealESRGAN''"
  let ?r3 = "\<lparr>status = 200, body = File ''webp(4, 4, 3)'', mimetype = ''image/webp'',
              headers = []\<rparr>"
  from p1 have e3: "run_plugin demo_env demo_world ?q3
                      = (Returned ?r3, snd (run_plugin demo_env demo_world ?q3)) \<and> status ?r3 = 200"
    by (simp add: prod_eq_iff)
  have u3: "form ?q3 ''name'' = Some ''RealESRGAN''" "files ?q3 ''image'' = Some ''WW''"
    by (simp_all add: demo_request_sel)
  from response_format [where env = demo_env and t = demo_world and preq = ?q3 and presp = ?r3
      and t' = "snd (run_plugin demo_env demo_world ?q3)", THEN conjunct2, THEN conjunct2,
      THEN mp, OF e3]
  obtain name upload buf infos where a: "form ?q3 ''name'' = Some name"
      "files ?q3 ''image'' = Some upload"
    and b: "if name = InteractiveSeg_name demo_env then
              mimetype ?r3 = ''image/png''
            \<and> body ?r3 = File (numpy_to_bytes demo_env buf ''png'')
            else if name = RemoveBG_name demo_env \<or> name = AnimeSeg_name demo_env then
              mimetype ?r3 = ''image/png''
            \<and> body ?r3 = File (pil_to_bytes demo_env (FromArray buf) ''png''
                                (image_quality demo_world) infos)
            else
              mimetype ?r3 = ''image/'' @ get_image_ext demo_env upload
            \<and> body ?r3 = File (pil_to_bytes demo_env (FromArray buf)
                                (get_image_ext demo_env upload) (image_quality demo_world) infos)"
    by blast
  from a u3 have "name = ''RealESRGAN''" and "upload = ''WW''"
    by simp_all
  with b have c3: "mimetype ?r3 = ''image/'' @ get_image_ext demo_env ''WW''"
    by (simp add: demo_env_sel(18-20))
  from g w j f1 c1 f2 c2 p1 c3 p2 p3 show ?thesis by blast
qed

subsection \<open>Saving an image\<close>

lemmas save_eval =
  save_image_def save_image_alpha_def Let_def text_response_def str_tuple_def str_nat.simps
  BadRequestKeyError_def

lemma save_image_failure:
  assumes "save_image env s req = (out, s')"
      and "\<not> (\<exists>resp. out = Returned resp \<and> status resp = 200)"
  shows "s' = s"
  using assms
  by (auto simp: save_image_def Let_def text_response_def
      split: option.splits sum.splits if_splits)

lemma save_image_ignores_sniffing:
  "save_image (env\<lparr>imghdr_what := sniff\<rparr>) s req = save_image env s req"
  by (simp add: save_image_def save_image_alpha_def Let_def
      cong: option.case_cong sum.case_cong if_cong)

text \<open>
  Claim C10. With an output directory configured, a \<^verbatim>\<open>/save_image\<close> request that is
  answered 200 has written exactly one file: its path is the output directory joined with
  the filename of the request, with the suffix replaced by \<^verbatim>\<open>.png\<close>; its content is the
  image, alpha channel put back, converted to RGBA and encoded as \<^verbatim>\<open>png\<close>. What
  \<^verbatim>\<open>imghdr\<close> would sniff from the upload plays no part in the handler.
\<close>

theorem save_image_writes_png:
  assumes "output_dir s = Some dir"
      and "save_image env s req = (Returned resp, s')"
      and "status resp = 200"
  shows "(\<exists>filename upload img alpha_channel infos save_path buf.
            form req ''filename'' = Some filename
          \<and> files req ''image'' = Some upload
          \<and> load_img env upload False = Inr (img, alpha_channel, infos)
          \<and> compose env img alpha_channel = Inr buf
          \<and> with_suffix env (path_join env dir filename) ''.png'' = Inr save_path
          \<and> s' = s\<lparr>fs := (fs s)(save_path \<mapsto>
                     pil_to_bytes env (Convert ''RGBA'' (FromArray buf)) ''png''
                       (image_quality s) infos)\<rparr>)
       \<and> save_image (env\<lparr>imghdr_what := sniff\<rparr>) s req = save_image env s req"
proof -
  from save_image_success_inv [OF assms(2,3)] assms(1)
  have "\<exists>filename upload img alpha_channel infos save_path buf.
            form req ''filename'' = Some filename
          \<and> files req ''image'' = Some upload
          \<and> load_img env upload False = Inr (img, alpha_channel, infos)
          \<and> compose env img alpha_channel = Inr buf
          \<and> with_suffix env (path_join env dir filename) ''.png'' = Inr save_path
          \<and> s' = s\<lparr>fs := (fs s)(save_path \<mapsto>
                     pil_to_bytes env (Convert ''RGBA'' (FromArray buf)) ''png''
                       (image_quality s) infos)\<rparr>"
    by (elim exE conjE) auto
  then show ?thesis
    by (simp add: save_image_ignores_sniffing)
qed

text \<open>An upload that sniffs as \<^verbatim>\<open>webp\<close>, saved under the name \<^verbatim>\<open>shot.webp\<close>.\<close>

theorem save_image_writes_png_witness:
  "output_dir demo_world = Some ''/out''
 \<and> imghdr_what demo_env ''WW'' = Some ''webp''
 \<and> save_image demo_env demo_world (demo_form_request ''WW'' ''filename'' ''shot.webp'')
     = (Returned (text_response ''ok'' 200),
        demo_world\<lparr>fs := [''/out/shot.png'' \<mapsto> ''pngRGBA(2, 2, 3)'']\<rparr>)
 \<and> (\<exists>filename upload img alpha_channel infos save_path buf.
        form (demo_form_request ''WW'' ''filename'' ''shot.webp'') ''filename'' = Some filename
      \<and> files (demo_form_request ''WW'' ''filename'' ''shot.webp'') ''image'' = Some upload
      \<and> load_img demo_env upload False = Inr (img, alpha_channel, infos)
      \<and> compose demo_env img alpha_channel = Inr buf
      \<and> with_suffix demo_env (path_join demo_env ''/out'' filename) ''.png'' = Inr save_path
      \<and> demo_world\<lparr>fs := [''/out/shot.png'' \<mapsto> ''pngRGBA(2, 2, 3)'']\<rparr>
          = demo_world\<lparr>fs := (fs demo_world)(save_path \<mapsto>
              pil_to_bytes demo_env (Convert ''RGBA'' (FromArray buf)) ''png''
                (image_quality demo_world) infos)\<rparr>)"
proof -
  let ?q = "demo_form_request ''WW'' ''filename'' ''shot.webp''"
  have o: "output_dir demo_world = Some ''/out''"
    by (simp add: demo_world_sel)
  have w: "imghdr_what demo_env ''WW'' = Some ''webp''"
    by (simp add: demo_env_sel)
  have e: "save_image demo_env demo_world ?q
     = (Returned (text_response ''ok'' 200),
        demo_world\<lparr>fs := [''/out/shot.png'' \<mapsto> ''pngRGBA(2, 2, 3)'']\<rparr>)"
    by (simp add: save_eval demo_simps)
  have t: "status (text_response ''ok'' 200) = 200"
    by (simp add: text_response_def)
  note c = save_image_writes_png [OF o e t, THEN conjunct1]
  from o w e c show ?thesis by blast
qed

subsection \<open>Putting the alpha channel back\<close>

text \<open>
  Claim C5, as stated, fails on \<^verbatim>\<open>/run_plugin\<close>: for RemoveBG and AnimeSeg the branch that
  puts the alpha channel back is not taken (and InteractiveSeg returns before it). The
  upload \<open>AA\<close> has an alpha channel of 2 by 2. The example AnimeSeg returns a buffer of 4
  by 4, the example RemoveBG one of 2 by 2: either is encoded as the plugin returned it,
  where the compositor would have appended the alpha channel.
\<close>

theorem alpha_recombination_counterexample:
  "load_img demo_env ''AA'' False = Inr (demo_image ''AA'', Some (demo_gray ''AA'' 255), [])
 \<and> take 2 (shape (demo_gray ''AA'' 255)) \<noteq> take 2 (shape \<lparr>shape = [4, 4, 4], elems = []\<rparr>)
 \<and> fst (run_plugin demo_env demo_world (demo_form_request ''AA'' ''name'' ''AnimeSeg''))
     = Returned (send_file
         (pil_to_bytes demo_env (FromArray \<lparr>shape = [4, 4, 4], elems = []\<rparr>) ''png'' 95 [])
         ''image/png'')
 \<and> compose demo_env \<lparr>shape = [4, 4, 4], elems = []\<rparr> (Some (demo_gray ''AA'' 255))
     \<noteq> Inr \<lparr>shape = [4, 4, 4], elems = []\<rparr>
 \<and> fst (run_plugin demo_env demo_world (demo_form_request ''AA'' ''name'' ''RemoveBG''))
     = Returned (send_file
         (pil_to_bytes demo_env (FromArray ((demo_image ''AA'')\<lparr>shape := [2, 2, 4]\<rparr>)) ''png'' 95 [])
         ''image/png'')
 \<and> compose demo_env ((demo_image ''AA'')\<lparr>shape := [2, 2, 4]\<rparr>) (Some (demo_gray ''AA'' 255))
     \<noteq> Inr ((demo_image ''AA'')\<lparr>shape := [2, 2, 4]\<rparr>)"
  by (simp add: plugin_eval demo_simps compose_def)

text \<open>
  Claim C5, amended. The three inline copies of the alpha step compute the compositor
  of the specification: without an alpha channel the buffer is returned as it is; with
  one, the alpha channel is resized to the buffer's width and height if its height and
  width differ from the buffer's, and concatenated as a further channel. This step is
  applied on the success path of \<^verbatim>\<open>/inpaint\<close>, on \<^verbatim>\<open>/save_image\<close>, and on the success path of
  \<^verbatim>\<open>/run_plugin\<close> for every plugin other than InteractiveSeg, RemoveBG and AnimeSeg, whose
  result is encoded as the plugin returned it.
\<close>

theorem alpha_recombination:
  "compose env b None = Inr b
 \<and> (take 2 (shape a) \<noteq> take 2 (shape b) \<and> 2 \<le> length (shape b) \<longrightarrow>
      compose env b (Some a) =
        Inr (np_concatenate env b (np_newaxis env (cv2_resize env a (shape b ! 1, shape b ! 0)))))
 \<and> (take 2 (shape a) = take 2 (shape b) \<longrightarrow>
      compose env b (Some a) = Inr (np_concatenate env b (np_newaxis env a)))
 \<and> process_alpha env b al = compose env b al
 \<and> run_plugin_alpha env b al = compose env b al
 \<and> save_image_alpha env b al = compose env b al
 \<and> (process env s req = (Returned resp, s') \<and> status resp = 200 \<longrightarrow>
      (\<exists>p res mm buf.
          prepare env req = Inr p
        \<and> mm_call env (model_manager s)
              (resize_max_size env (p_image p) (p_size_limit p) INTER_CUBIC)
              (resize_max_size env (p_mask p) (p_size_limit p) INTER_CUBIC) (p_config p)
            = (Inr res, mm)
        \<and> compose env (cv2_cvtColor_BGR2RGB env (astype_uint8 env res)) (p_alpha_channel p)
            = Inr buf
        \<and> body resp = File (pil_to_bytes env (FromArray buf)
                              (get_image_ext env (p_origin_image_bytes p))
                              (image_quality s) (p_exif_infos p))))
 \<and> (run_plugin env t preq = (Returned presp, t') \<and> status presp = 200 \<longrightarrow>
      (\<exists>name plugin upload img alpha_channel infos bgr_res.
          form preq ''name'' = Some name
        \<and> plugins t name = Some plugin
        \<and> files preq ''image'' = Some upload
        \<and> load_img env upload False = Inr (img, alpha_channel, infos)
        \<and> plugin img (files preq)
              (if name = InteractiveSeg_name env
               then (form preq)(''img_md5'' \<mapsto> md5_hexdigest env upload)
               else form preq) = Inr bgr_res
        \<and> (if name = InteractiveSeg_name env then
              body presp = File (numpy_to_bytes env bgr_res ''png'')
            else if name = RemoveBG_name env \<or> name = AnimeSeg_name env then
              body presp = File (pil_to_bytes env (FromArray bgr_res) ''png''
                                   (image_quality t) infos)
            else
              (\<exists>buf. compose env (cv2_cvtColor_BGR2RGB env bgr_res) alpha_channel = Inr buf
                   \<and> body presp = File (pil_to_bytes env (FromArray buf)
                                          (get_image_ext env upload) (image_quality t) infos)))))
 \<and> (save_image env u sreq = (Returned sresp, u') \<and> status sresp = 200 \<longrightarrow>
      (\<exists>dir filename upload img alpha_channel infos save_path buf.
          output_dir u = Some dir
        \<and> form sreq ''filename'' = Some filename
        \<and> files sreq ''image'' = Some upload
        \<and> load_img env upload False = Inr (img, alpha_channel, infos)
        \<and> with_suffix env (path_join env dir filename) ''.png'' = Inr save_path
        \<and> compose env img alpha_channel = Inr buf
        \<and> fs u' = (fs u)(save_path \<mapsto>
              pil_to_bytes env (Convert ''RGBA'' (FromArray buf)) ''png''
                (image_quality u) infos)))"
proof (intro conjI impI)
  show "compose env b None = Inr b"
    by (simp add: compose_def)
  show "compose env b (Some a) =
        Inr (np_concatenate env b (np_newaxis env (cv2_resize env a (shape b ! 1, shape b ! 0))))"
    if "take 2 (shape a) \<noteq> take 2 (shape b) \<and> 2 \<le> length (shape b)"
    using that by (simp add: compose_def)
  show "compose env b (Some a) = Inr (np_concatenate env b (np_newaxis env a))"
    if "take 2 (shape a) = take 2 (shape b)"
    using that by (simp add: compose_def)
  show "process_alpha env b al = compose env b al"
    by (rule process_alpha_compose)
  show "run_plugin_alpha env b al = compose env b al"
    by (rule run_plugin_alpha_compose)
  show "save_image_alpha env b al = compose env b al"
    by (rule save_image_alpha_compose)
next
  assume a: "process env s req = (Returned resp, s') \<and> status resp = 200"
  from process_success_inv [of env s req resp s'] a
  obtain p res mm buf where
    "prepare env req = Inr p"
    "mm_call env (model_manager s)
              (resize_max_size env (p_image p) (p_size_limit p) INTER_CUBIC)
              (resize_max_size env (p_mask p) (p_size_limit p) INTER_CUBIC) (p_config p)
            = (Inr res, mm)"
    "compose env (cv2_cvtColor_BGR2RGB env (astype_uint8 env res)) (p_alpha_channel p) = Inr buf"
    "resp = (send_file
              (pil_to_bytes env (FromArray buf) (get_image_ext env (p_origin_image_bytes p))
                 (image_quality s) (p_exif_infos p))
              (''image/'' @ get_image_ext env (p_origin_image_bytes p)))
              \<lparr>headers := [(''X-Seed'', str_int (sd_seed (p_config p)))]\<rparr>"
    by blast
  then show "\<exists>p res mm buf.
          prepare env req = Inr p
        \<and> mm_call env (model_manager s)
              (resize_max_size env (p_image p) (p_size_limit p) INTER_CUBIC)
              (resize_max_size env (p_mask p) (p_size_limit p) INTER_CUBIC) (p_config p)
            = (Inr res, mm)
        \<and> compose env (cv2_cvtColor_BGR2RGB env (astype_uint8 env res)) (p_alpha_channel p)
            = Inr buf
        \<and> body resp = File (pil_to_bytes env (FromArray buf)
                              (get_image_ext env (p_origin_image_bytes p))
                              (image_quality s) (p_exif_infos p))"
    by (auto simp: send_file_fields)
next
  assume a: "run_plugin env t preq = (Returned presp, t') \<and> status presp = 200"
  from run_plugin_success_inv [of env t preq presp t'] a
  obtain name plugin upload img alpha_channel infos bgr_res where
    f: "form preq ''name'' = Some name" "plugins t name = Some plugin"
       "files preq ''image'' = Some upload"
       "load_img env upload False = Inr (img, alpha_channel, infos)"
       "plugin img (files preq)
              (if name = InteractiveSeg_name env
               then (form preq)(''img_md5'' \<mapsto> md5_hexdigest env upload)
               else form preq) = Inr bgr_res"
    and r: "plugin_response env t name upload alpha_channel infos bgr_res = Returned presp"
    by blast
  from r have "if name = InteractiveSeg_name env then
              body presp = File (numpy_to_bytes env bgr_res ''png'')
            else if name = RemoveBG_name env \<or> name = AnimeSeg_name env then
              body presp = File (pil_to_bytes env (FromArray bgr_res) ''png''
                                   (image_quality t) infos)
            else
              (\<exists>buf. compose env (cv2_cvtColor_BGR2RGB env bgr_res) alpha_channel = Inr buf
                   \<and> body presp = File (pil_to_bytes env (FromArray buf)
                                          (get_image_ext env upload) (image_quality t) infos))"
    by (auto simp: plugin_response_result send_file_fields split: if_splits sum.splits)
  with f show "\<exists>name plugin upload img alpha_channel infos bgr_res.
          form preq ''name'' = Some name
        \<and> plugins t name = Some plugin
        \<and> files preq ''image'' = Some upload
        \<and> load_img env upload False = Inr (img, alpha_channel, infos)
        \<and> plugin img (files preq)
              (if name = InteractiveSeg_name env
               then (form preq)(''img_md5'' \<mapsto> md5_hexdigest env upload)
               else form preq) = Inr bgr_res
        \<and> (if name = InteractiveSeg_name env then
              body presp = File (numpy_to_bytes env bgr_res ''png'')
            else if name = RemoveBG_name env \<or> name = AnimeSeg_name env then
              body presp = File (pil_to_bytes env (FromArray bgr_res) ''png''
                                   (image_quality t) infos)
            else
              (\<exists>buf. compose env (cv2_cvtColor_BGR2RGB env bgr_res) alpha_channel = Inr buf
                   \<and> body presp = File (pil_to_bytes env (FromArray buf)
                                          (get_image_ext env upload) (image_quality t) infos)))"
    by blast
next
  assume a: "save_image env u sreq = (Returned sresp, u') \<and> status sresp = 200"
  then have a1: "save_image env u sreq = (Returned sresp, u')" and a2: "status sresp = 200"
    by simp_all
  from save_image_success_inv [OF a1 a2]
  show "\<exists>dir filename upload img alpha_channel infos save_path buf.
          output_dir u = Some dir
        \<and> form sreq ''filename'' = Some filename
        \<and> files sreq ''image'' = Some upload
        \<and> load_img env upload False = Inr (img, alpha_channel, infos)
        \<and> with_suffix env (path_join env dir filename) ''.png'' = Inr save_path
        \<and> compose env img alpha_channel = Inr buf
        \<and> fs u' = (fs u)(save_path \<mapsto>
              pil_to_bytes env (Convert ''RGBA'' (FromArray buf)) ''png''
                (image_quality u) infos)"
    by (elim exE conjE) auto
qed

text \<open>
  The upload \<open>AA\<close>, with an alpha channel of 2 by 2: sent to \<^verbatim>\<open>/inpaint\<close> and saved, the
  alpha channel is appended as it is; sent to the upscaler, whose result is 4 by 4, it
  is resized first.
\<close>

theorem alpha_recombination_witness:
  "take 2 (shape (demo_gray ''AA'' 255)) \<noteq> take 2 (shape ((demo_image ''AA'')\<lparr>shape := [4, 4, 3]\<rparr>))
 \<and> 2 \<le> length (shape ((demo_image ''AA'')\<lparr>shape := [4, 4, 3]\<rparr>))
 \<and> compose demo_env ((demo_image ''AA'')\<lparr>shape := [4, 4, 3]\<rparr>) (Some (demo_gray ''AA'' 255))
     = Inr (np_concatenate demo_env ((demo_image ''AA'')\<lparr>shape := [4, 4, 3]\<rparr>)
             (np_newaxis demo_env (cv2_resize demo_env (demo_gray ''AA'' 255) (4, 4))))
 \<and> take 2 (shape (demo_gray ''AA'' 255)) = take 2 (shape (demo_image ''AA''))
 \<and> compose demo_env (demo_image ''AA'') (Some (demo_gray ''AA'' 255))
     = Inr (np_concatenate demo_env (demo_image ''AA'') (np_newaxis demo_env (demo_gray ''AA'' 255)))
 \<and> fst (process demo_env demo_world (demo_request ''AA'' ''mm'' ''42''))
     = Returned \<lparr>status = 200, body = File ''png(2, 2, 4)'', mimetype = ''image/png'',
                  headers = [(''X-Seed'', ''42'')]\<rparr>
 \<and> (\<exists>buf. compose demo_env (demo_image ''AA'') (Some (demo_gray ''AA'' 255)) = Inr buf
         \<and> File ''png(2, 2, 4)'' = File (pil_to_bytes demo_env (FromArray buf) ''png'' 95 []))
 \<and> fst (run_plugin demo_env demo_world (demo_form_request ''AA'' ''name'' ''RealESRGAN''))
     = Returned \<lparr>status = 200, body = File ''png(4, 4, 4)'', mimetype = ''image/png'',
                  headers = []\<rparr>
 \<and> (\<exists>buf. compose demo_env ((demo_image ''AA'')\<lparr>shape := [4, 4, 3]\<rparr>)
             (Some (demo_gray ''AA'' 255)) = Inr buf
         \<and> File ''png(4, 4, 4)'' = File (pil_to_bytes demo_env (FromArray buf) ''png'' 95 []))
 \<and> save_image demo_env demo_world (demo_form_request ''AA'' ''filename'' ''cut.webp'')
     = (Returned (text_response ''ok'' 200),
        demo_world\<lparr>fs := [''/out/cut.png'' \<mapsto> ''pngRGBA(2, 2, 4)'']\<rparr>)
 \<and> (\<exists>buf. compose demo_env (demo_image ''AA'') (Some (demo_gray ''AA'' 255)) = Inr buf
         \<and> [''/out/cut.png'' \<mapsto> ''pngRGBA(2, 2, 4)'']
            = [''/out/cut.png'' \<mapsto> pil_to_bytes demo_env (Convert ''RGBA'' (FromArray buf)) ''png'' 95 []])"
proof -
  let ?up = "(demo_image ''AA'')\<lparr>shape := [4, 4, 3]\<rparr>"
  let ?al = "demo_gray ''AA'' 255"
  note ar = alpha_recombination [where env = demo_env]
  have d: "take 2 (shape ?al) \<noteq> take 2 (shape ?up) \<and> 2 \<le> length (shape ?up)"
    by (simp add: demo_gray_def demo_image_def)
  from ar [where a = ?al and b = ?up, THEN conjunct2, THEN conjunct1, THEN mp, OF d]
  have c1: "compose demo_env ?up (Some ?al)
     = Inr (np_concatenate demo_env ?up (np_newaxis demo_env (cv2_resize demo_env ?al (4, 4))))"
    by simp
  have q: "take 2 (shape ?al) = take 2 (shape (demo_image ''AA''))"
    by (simp add: demo_gray_def demo_image_def)
  note c2 = ar [where a = ?al and b = "demo_image ''AA''", THEN conjunct2, THEN conjunct2,
      THEN conjunct1, THEN mp, OF q]
  \<comment> \<open>\<^verbatim>\<open>/inpaint\<close>\<close>
  let ?q1 = "demo_request ''AA'' ''mm'' ''42''"
  let ?r1 = "\<lparr>status = 200, body = File ''png(2, 2, 4)'', mimetype = ''image/png'',
               headers = [(''X-Seed'', ''42'')]\<rparr>"
  let ?p1 = "\<lparr>p_origin_image_bytes = ''AA'', p_image = demo_image ''AA'',
            p_alpha_channel = Some ?al, p_exif_infos = [],
            p_mask = cv2_threshold_binary (demo_gray ''mm'' 200) 127 255,
            p_size_limit = 3, p_config = \<lparr>sd_seed = 42, other_fields = []\<rparr>\<rparr>"
  have f1: "fst (process demo_env demo_world ?q1) = Returned ?r1"
    by (simp add: process_eval demo_simps)
  then have e1: "process demo_env demo_world ?q1
                   = (Returned ?r1, snd (process demo_env demo_world ?q1)) \<and> status ?r1 = 200"
    by (simp add: prod_eq_iff)
  have p1: "prepare demo_env ?q1 = Inr ?p1"
    by (simp add: prepare_def decode_request_def demo_parse_config resolve_seed_def py_max_def
          cv2_threshold_binary_def demo_simps)
  from ar [where s = demo_world and req = ?q1 and resp = ?r1
      and s' = "snd (process demo_env demo_world ?q1)",
      THEN conjunct2, THEN conjunct2, THEN conjunct2, THEN conjunct2, THEN conjunct2,
      THEN conjunct2, THEN conjunct1, THEN mp, OF e1]
  obtain p res mm buf where
    "prepare demo_env ?q1 = Inr p"
    "mm_call demo_env (model_manager demo_world)
              (resize_max_size demo_env (p_image p) (p_size_limit p) INTER_CUBIC)
              (resize_max_size demo_env (p_mask p) (p_size_limit p) INTER_CUBIC) (p_config p)
            = (Inr res, mm)"
    "compose demo_env (cv2_cvtColor_BGR2RGB demo_env (astype_uint8 demo_env res))
       (p_alpha_channel p) = Inr buf"
    "body ?r1 = File (pil_to_bytes demo_env (FromArray buf)
                        (get_image_ext demo_env (p_origin_image_bytes p))
                        (image_quality demo_world) (p_exif_infos p))"
    by blast
  with p1 have c3: "\<exists>buf. compose demo_env (demo_image ''AA'') (Some ?al) = Inr buf
         \<and> File ''png(2, 2, 4)'' = File (pil_to_bytes demo_env (FromArray buf) ''png'' 95 [])"
    by (auto simp: demo_env_sel(2,10,11,16) demo_env_sel(6) demo_world_sel get_image_ext_def)
  \<comment> \<open>\<^verbatim>\<open>/run_plugin\<close>\<close>
  let ?q2 = "demo_form_request ''AA'' ''name'' ''RealESRGAN''"
  let ?r2 = "\<lparr>status = 200, body = File ''png(4, 4, 4)'', mimetype = ''image/png'',
               headers = []\<rparr>"
  have f2: "fst (run_plugin demo_env demo_world ?q2) = Returned ?r2"
    by (simp add: plugin_eval demo_simps)
  then have e2: "run_plugin demo_env demo_world ?q2
                   = (Returned ?r2, snd (run_plugin demo_env demo_world ?q2)) \<and> status ?r2 = 200"
    by (simp add: prod_eq_iff)
  from ar [where t = demo_world and preq = ?q2 and presp = ?r2
      and t' = "snd (run_plugin demo_env demo_world ?q2)",
      THEN conjunct2, THEN conjunct2, THEN conjunct2, THEN conjunct2, THEN conjunct2,
      THEN conjunct2, THEN conjunct2, THEN conjunct1, THEN mp, OF e2]
  obtain name plugin upload img alpha_channel infos bgr_res where
    g: "form ?q2 ''name'' = Some name" "plugins demo_world name = Some plugin"
       "files ?q2 ''image'' = Some upload"
       "load_img demo_env upload False = Inr (img, alpha_channel, infos)"
       "plugin img (files ?q2)
              (if name = InteractiveSeg_name demo_env
               then (form ?q2)(''img_md5'' \<mapsto> md5_hexdigest demo_env upload)
               else form ?q2) = Inr bgr_res"
    and h: "if name = InteractiveSeg_name demo_env then
              body ?r2 = File (numpy_to_bytes demo_env bgr_res ''png'')
            else if name = RemoveBG_name demo_env \<or> name = AnimeSeg_name demo_env then
              body ?r2 = File (pil_to_bytes demo_env (FromArray bgr_res) ''png''
                                   (image_quality demo_world) infos)
            else
              (\<exists>buf. compose demo_env (cv2_cvtColor_BGR2RGB demo_env bgr_res) alpha_channel
                       = Inr buf
                   \<and> body ?r2 = File (pil_to_bytes demo_env (FromArray buf)
                                        (get_image_ext demo_env upload)
                                        (image_quality demo_world) infos))"
    by blast
  from g(1,3) have n: "name = ''RealESRGAN''" "upload = ''AA''"
    by (simp_all add: demo_request_sel)
  with g(2,4,5) have v: "img = demo_image ''AA''" "alpha_channel = Some ?al" "infos = []"
      "bgr_res = ?up"
    by (auto simp: demo_simps)
  from h n v have c4: "\<exists>buf. compose demo_env ?up (Some ?al) = Inr buf
         \<and> File ''png(4, 4, 4)'' = File (pil_to_bytes demo_env (FromArray buf) ''png'' 95 [])"
    by (simp add: demo_env_sel(6,11,18,19,20) demo_world_sel get_image_ext_def)
  \<comment> \<open>\<^verbatim>\<open>/save_image\<close>\<close>
  let ?q3 = "demo_form_request ''AA'' ''filename'' ''cut.webp''"
  let ?u3 = "demo_world\<lparr>fs := [''/out/cut.png'' \<mapsto> ''pngRGBA(2, 2, 4)'']\<rparr>"
  have f3: "save_image demo_env demo_world ?q3 = (Returned (text_response ''ok'' 200), ?u3)"
    by (simp add: save_eval demo_simps)
  then have e3: "save_image demo_env demo_world ?q3 = (Returned (text_response ''ok'' 200), ?u3)
                 \<and> status (text_response ''ok'' 200) = 200"
    by (simp add: text_response_def)
  from ar [where u = demo_world and sreq = ?q3 and sresp = "text_response ''ok'' 200"
      and u' = ?u3,
      THEN conjunct2, THEN conjunct2, THEN conjunct2, THEN conjunct2, THEN conjunct2,
      THEN conjunct2, THEN conjunct2, THEN conjunct2, THEN mp, OF e3]
  obtain dir filename upload' img' alpha_channel' infos' save_path buf' where
    k: "output_dir demo_world = Some dir" "form ?q3 ''filename'' = Some filename"
       "files ?q3 ''image'' = Some upload'"
       "load_img demo_env upload' False = Inr (img', alpha_channel', infos')"
       "with_suffix demo_env (path_join demo_env dir filename) ''.png'' = Inr save_path"
       "compose demo_env img' alpha_channel' = Inr buf'"
       "fs ?u3 = (fs demo_world)(save_path \<mapsto>
              pil_to_bytes demo_env (Convert ''RGBA'' (FromArray buf')) ''png''
                (image_quality demo_world) infos')"
    by blast
  from k(1,2,3) have "dir = ''/out''" "filename = ''cut.webp''" "upload' = ''AA''"
    by (simp_all add: demo_request_sel demo_world_sel)
  with k(4,5) have "img' = demo_image ''AA''" "alpha_channel' = Some ?al" "infos' = []"
      "save_path = ''/out/cut.png''"
    by (auto simp: demo_simps)
  with k(6,7) have c5: "\<exists>buf. compose demo_env (demo_image ''AA'') (Some ?al) = Inr buf
         \<and> [''/out/cut.png'' \<mapsto> ''pngRGBA(2, 2, 4)'']
            = [''/out/cut.png'' \<mapsto> pil_to_bytes demo_env (Convert ''RGBA'' (FromArray buf)) ''png'' 95 []]"
    by (auto simp: demo_world_sel)
  from d c1 q c2 f1 c3 f2 c4 f3 c5 show ?thesis by blast
qed

end
